theory Spec2Isabelle
  imports Main
begin

section \<open>Python values\<close>

text \<open>
  A Python \<open>str\<close> is a sequence of Unicode code points: \<open>len\<close> counts code points
  and a slice takes code points. A string is therefore a list of code points (natural
  numbers); \<open>lit\<close> embeds the ASCII literals of the source.
\<close>

type_synonym pystr = "nat list"

definition lit :: "string \<Rightarrow> pystr" where
  "lit s = map of_char s"

text \<open>
  \<open>str.isspace\<close> of one code point, which is what \<open>str.strip()\<close> removes: the code
  points U+0009..U+000D, U+001C..U+0020, U+0085, U+00A0, U+1680, U+2000..U+200A,
  U+2028, U+2029, U+202F, U+205F and U+3000.
\<close>

definition isspace :: "nat \<Rightarrow> bool" where
  "isspace c \<longleftrightarrow>
     (9 \<le> c \<and> c \<le> 13) \<or> (28 \<le> c \<and> c \<le> 32) \<or> c = 133 \<or> c = 160 \<or> c = 5760 \<or>
     (8192 \<le> c \<and> c \<le> 8202) \<or> c = 8232 \<or> c = 8233 \<or> c = 8239 \<or> c = 8287 \<or>
     c = 12288"

definition strip :: "pystr \<Rightarrow> pystr" where
  "strip s = rev (dropWhile isspace (rev (dropWhile isspace s)))"

text \<open>\<open>sep.join(xs)\<close> on a list of strings.\<close>

fun join :: "pystr \<Rightarrow> pystr list \<Rightarrow> pystr" where
  "join sep [] = []"
| "join sep [x] = x"
| "join sep (x # y # ys) = x @ sep @ join sep (y # ys)"

text \<open>\<open>str(n)\<close> of a Python \<open>int\<close>: its decimal digits, with a minus sign when negative.\<close>

function show_nat :: "nat \<Rightarrow> pystr" where
  "show_nat n = (if n < 10 then [48 + n] else show_nat (n div 10) @ [48 + n mod 10])"
  by pat_completeness auto
termination
  by (relation "measure id") auto

declare show_nat.simps [simp del]

definition show_int :: "int \<Rightarrow> pystr" where
  "show_int i = (if i < 0 then 45 # show_nat (nat (- i)) else show_nat (nat i))"

text \<open>
  The values a decoded JSON body holds (\<open>response.json()\<close>, typed \<open>dict[str, Any]\<close> in
  the source). A \<open>dict\<close> is an association list in insertion order; \<open>map_of\<close> is its
  lookup. Floating-point numbers are kept abstract: nothing is computed on a
  \<open>pyfloat\<close>, its truth value and its text are taken from the runtime below.
\<close>

typedecl pyfloat

datatype json =
    JNull
  | JBool bool
  | JInt int
  | JFloat pyfloat
  | JStr pystr
  | JList "json list"
  | JDict "(pystr \<times> json) list"

text \<open>
  The built-ins of the interpreter that rest on tables outside the repository (the
  Unicode character database, the \<open>repr\<close> of containers and floats) are parameters
  of the model: \<open>str.lower\<close>, \<open>str.title\<close>, \<open>repr\<close> of a list, a dict or a float, and
  the truth value of a float. Every theorem below holds for whatever they are.
\<close>

record pyrt =
  str_lower :: "pystr \<Rightarrow> pystr"
  str_title :: "pystr \<Rightarrow> pystr"
  repr :: "json \<Rightarrow> pystr"
  float_bool :: "pyfloat \<Rightarrow> bool"

text \<open>
  Exceptions are values. \<open>External\<close> is an exception raised inside a library the
  repository calls (requests, wikipediaapi, the agent runtime): its place in the class
  hierarchy and its text \<open>str(exc)\<close>.
\<close>

datatype exn_class = Lookup_error | Timeout_error | Missing_api_key | Other_exception | Base_exception

datatype error =
    ValueError pystr
  | AttributeError
  | TypeError
  | LookupError pystr
  | RuntimeError pystr
  | TVDBAuthenticationError pystr
  | TVDBRequestError pystr
  | MissingApiKeyError pystr
  | FileNotFoundError
  | JSONDecodeError
  | External exn_class pystr

text \<open>Sequencing of calls that may raise: the first exception ends the computation.\<close>

definition and_then :: "error + 'a \<Rightarrow> ('a \<Rightarrow> error + 'b) \<Rightarrow> error + 'b" where
  "and_then m f = (case m of Inl e \<Rightarrow> Inl e | Inr x \<Rightarrow> f x)"

text \<open>\<open>bool(v)\<close>, the test of \<open>if v\<close>, \<open>not v\<close> and \<open>v or w\<close>.\<close>

definition truthy :: "pyrt \<Rightarrow> json \<Rightarrow> bool" where
  "truthy rt v = (case v of
      JNull \<Rightarrow> False
    | JBool b \<Rightarrow> b
    | JInt i \<Rightarrow> i \<noteq> 0
    | JFloat f \<Rightarrow> float_bool rt f
    | JStr s \<Rightarrow> s \<noteq> []
    | JList xs \<Rightarrow> xs \<noteq> []
    | JDict d \<Rightarrow> d \<noteq> [])"

text \<open>\<open>str(v)\<close>, which is what an f-string field \<open>{v}\<close> renders.\<close>

definition py_str :: "pyrt \<Rightarrow> json \<Rightarrow> pystr" where
  "py_str rt v = (case v of
      JNull \<Rightarrow> lit ''None''
    | JBool b \<Rightarrow> (if b then lit ''True'' else lit ''False'')
    | JInt i \<Rightarrow> show_int i
    | JStr s \<Rightarrow> s
    | _ \<Rightarrow> repr rt v)"

text \<open>\<open>v.get(key, default)\<close>: only a dict has the method.\<close>

definition py_get :: "json \<Rightarrow> pystr \<Rightarrow> json \<Rightarrow> error + json" where
  "py_get v key dflt = (case v of
      JDict d \<Rightarrow> Inr (case map_of d key of Some x \<Rightarrow> x | None \<Rightarrow> dflt)
    | _ \<Rightarrow> Inl AttributeError)"

text \<open>\<open>len(v)\<close>.\<close>

definition py_len :: "json \<Rightarrow> error + nat" where
  "py_len v = (case v of
      JStr s \<Rightarrow> Inr (length s)
    | JList xs \<Rightarrow> Inr (length xs)
    | JDict d \<Rightarrow> Inr (length d)
    | _ \<Rightarrow> Inl TypeError)"

text \<open>
  The items a \<open>for\<close> loop over \<open>v\<close> visits: the elements of a list, the one-character
  strings of a string, the keys of a dict.
\<close>

definition py_iter :: "json \<Rightarrow> error + json list" where
  "py_iter v = (case v of
      JStr s \<Rightarrow> Inr (map (\<lambda>c. JStr [c]) s)
    | JList xs \<Rightarrow> Inr xs
    | JDict d \<Rightarrow> Inr (map (\<lambda>kv. JStr (fst kv)) d)
    | _ \<Rightarrow> Inl TypeError)"

text \<open>
  The slice \<open>v[:n]\<close>, then iterated. A dict cannot be sliced (\<open>TypeError\<close>; a
  \<open>KeyError\<close> from Python 3.12 on), nor can a number or a bool.
\<close>

definition py_prefix :: "nat \<Rightarrow> json \<Rightarrow> error + json list" where
  "py_prefix n v = (case v of
      JStr s \<Rightarrow> Inr (map (\<lambda>c. JStr [c]) (take n s))
    | JList xs \<Rightarrow> Inr (take n xs)
    | _ \<Rightarrow> Inl TypeError)"

section \<open>The result formatter (tvdb/helper.py)\<close>

text \<open>
  The expression shared by the companies and the genres line,
  \<^verbatim>\<open>", ".join(x.get("name", "N/A") if isinstance(x, dict) else str(x) for x in v[:n])\<close>.
  \<open>str.join\<close> raises \<open>TypeError\<close> on an item that is not a string.
\<close>

definition entry_name :: "pyrt \<Rightarrow> json \<Rightarrow> json" where
  "entry_name rt x = (case x of
      JDict d \<Rightarrow> (case map_of d (lit ''name'') of Some n \<Rightarrow> n | None \<Rightarrow> JStr (lit ''N/A''))
    | _ \<Rightarrow> JStr (py_str rt x))"

fun str_items :: "json list \<Rightarrow> error + pystr list" where
  "str_items [] = Inr []"
| "str_items (JStr s # xs) = and_then (str_items xs) (\<lambda>ss. Inr (s # ss))"
| "str_items (_ # xs) = Inl TypeError"

definition joined_names :: "pyrt \<Rightarrow> nat \<Rightarrow> json \<Rightarrow> error + pystr" where
  "joined_names rt n v =
     and_then (py_prefix n v) (\<lambda>xs.
     and_then (str_items (map (entry_name rt) xs)) (\<lambda>ss.
     Inr (join (lit '', '') ss)))"

text \<open>
  \<^verbatim>\<open>f"{overview[:200]}..." if len(overview) > 200 else overview\<close>, rendered into the
  f-string of the Overview line, for a truthy \<open>overview\<close>.
\<close>

definition truncated :: "pyrt \<Rightarrow> json \<Rightarrow> error + pystr" where
  "truncated rt overview = (case overview of
      JStr s \<Rightarrow> Inr (if length s > 200 then take 200 s @ lit ''...'' else s)
    | JList xs \<Rightarrow> Inr (if length xs > 200 then py_str rt (JList (take 200 xs)) @ lit ''...''
                        else py_str rt overview)
    | JDict d \<Rightarrow> (if length d > 200 then Inl TypeError else Inr (py_str rt overview))
    | _ \<Rightarrow> Inl TypeError)"

text \<open>\<open>item.get("type", "N/A").title()\<close>: only a string has \<open>title\<close>.\<close>

definition title_of :: "pyrt \<Rightarrow> json \<Rightarrow> error + pystr" where
  "title_of rt v = (case v of JStr s \<Rightarrow> Inr (str_title rt s) | _ \<Rightarrow> Inl AttributeError)"

text \<open>
  \<open>_format_item(index, item)\<close>. The source is a generator consumed whole by
  \<open>lines.extend\<close>, so an exception raised after the first \<open>yield\<close> still ends the call
  of \<open>format_search_results\<close>: the model returns all the lines or the exception.
\<close>

definition format_item :: "pyrt \<Rightarrow> int \<Rightarrow> json \<Rightarrow> error + pystr list" where
  "format_item rt index item =
     and_then (py_get item (lit ''name'') (JStr (lit ''N/A''))) (\<lambda>name.
     and_then (py_get item (lit ''type'') (JStr (lit ''N/A''))) (\<lambda>ty.
     and_then (title_of rt ty) (\<lambda>item_type.
     and_then (py_get item (lit ''year'') (JStr (lit ''N/A''))) (\<lambda>year.
     and_then (py_get item (lit ''tvdb_id'') JNull) (\<lambda>first_id.
     and_then (if truthy rt first_id then Inr first_id
               else py_get item (lit ''id'') (JStr (lit ''N/A''))) (\<lambda>tvdb_id.
     and_then (py_get item (lit ''overview'') JNull) (\<lambda>ov.
     and_then (if truthy rt ov
               then and_then (truncated rt ov) (\<lambda>t. Inr [lit ''   - Overview: '' @ t])
               else Inr []) (\<lambda>overview_lines.
     and_then (py_get item (lit ''companies'') JNull) (\<lambda>companies.
     and_then (if truthy rt companies
               then and_then (joined_names rt 3 companies)
                      (\<lambda>names. Inr [lit ''   - Networks/Companies: '' @ names])
               else Inr []) (\<lambda>company_lines.
     and_then (py_get item (lit ''genres'') JNull) (\<lambda>genres.
     and_then (if truthy rt genres
               then and_then (joined_names rt 5 genres)
                      (\<lambda>genre_names. Inr [lit ''   - Genres: '' @ genre_names])
               else Inr []) (\<lambda>genre_lines.
     Inr ([show_int index @ lit ''. **'' @ py_str rt name @ lit ''** ('' @ item_type
             @ lit '', '' @ py_str rt year @ lit '')'',
           lit ''   - TVDB ID: '' @ py_str rt tvdb_id]
          @ overview_lines @ company_lines @ genre_lines)))))))))))))"

text \<open>The loop \<open>for index, item in enumerate(data, start=1): lines.extend(...)\<close>.\<close>

fun format_items :: "pyrt \<Rightarrow> int \<Rightarrow> json list \<Rightarrow> error + pystr list" where
  "format_items rt index [] = Inr []"
| "format_items rt index (item # items) =
     and_then (format_item rt index item) (\<lambda>ls.
     and_then (format_items rt (index + 1) items) (\<lambda>rest.
     Inr (ls @ rest)))"

text \<open>\<open>format_search_results(results)\<close>.\<close>

definition format_search_results :: "pyrt \<Rightarrow> json \<Rightarrow> error + pystr" where
  "format_search_results rt results =
     and_then (if truthy rt results then py_get results (lit ''data'') JNull else Inr JNull)
       (\<lambda>data.
     if \<not> truthy rt data then Inr (lit ''No results found for the search query.'')
     else
       and_then (py_len data) (\<lambda>n.
       and_then (py_iter data) (\<lambda>items.
       and_then (format_items rt 1 items) (\<lambda>ls.
       Inr (join [10] ((lit ''Found '' @ show_nat n @ lit '' results:'' @ [10]) # ls))))))"

section \<open>Effects: log records and network requests\<close>

text \<open>
  A call returns its result together with the effects it performed, in order: the
  records handed to the logger (level, message or format string, arguments) and the
  HTTP requests sent. \<open>Dumps v\<close> stands for the text \<open>json.dumps(v)\<close>, \<open>Exc e\<close> for
  the exception object \<open>e\<close>.
\<close>

datatype level = DEBUG | INFO | WARNING | ERROR

datatype logarg = Text pystr | Value json | Dumps json | Exc error

datatype request =
    Post pystr "(pystr \<times> json) list" "(pystr \<times> pystr) list"
  | Get pystr "(pystr \<times> json) list" "(pystr \<times> pystr) list"

datatype event = Log level pystr "logarg list" | Sent request

text \<open>
  The remote service is an input of the model. \<open>Request_failed m\<close>: the session call
  or \<open>raise_for_status\<close> raised a \<open>requests.RequestException\<close> whose text is \<open>m\<close>.
  \<open>Body b\<close>: a response arrived and passed \<open>raise_for_status\<close>; \<open>b\<close> is what
  \<open>response.json()\<close> decodes, \<open>None\<close> when the body is not JSON.
\<close>

datatype reply = Request_failed pystr | Body "json option"

type_synonym network = "request \<Rightarrow> reply"

section \<open>The TVDB client (tvdb/helper.py)\<close>

definition TVDB_BASE_URL :: pystr where
  "TVDB_BASE_URL = lit ''https://api4.thetvdb.com/v4''"

text \<open>
  The dataclass \<open>TVDBClient\<close>; \<open>token\<close> is its field \<open>_token\<close>, \<open>None\<close> (here
  \<open>JNull\<close>) by default. Its \<open>session\<close> is the network above.
\<close>

record TVDBClient =
  api_key :: pystr
  pin :: pystr
  token :: json

definition new_client :: "pystr \<Rightarrow> pystr \<Rightarrow> TVDBClient" where
  "new_client k p = \<lparr>api_key = k, pin = p, token = JNull\<rparr>"

text \<open>
  \<open>TVDBClient.authenticate\<close>: the exception raised (or \<open>None\<close> returned), the client
  afterwards, and the effects. The token is assigned on the last path only.
\<close>

definition authenticate ::
  "pyrt \<Rightarrow> network \<Rightarrow> TVDBClient \<Rightarrow> (error + unit) \<times> TVDBClient \<times> event list" where
  "authenticate rt net c =
     (let req = Post (TVDB_BASE_URL @ lit ''/login'')
                  [(lit ''apikey'', JStr (api_key c)), (lit ''pin'', JStr (pin c))]
                  [(lit ''Content-Type'', lit ''application/json'')]
      in case net req of
           Request_failed m \<Rightarrow>
             (let msg = lit ''TVDB authentication failed: '' @ m
              in (Inl (TVDBAuthenticationError msg), c, [Sent req, Log ERROR msg []]))
         | Body None \<Rightarrow> (Inl JSONDecodeError, c, [Sent req])
         | Body (Some data) \<Rightarrow>
             (case and_then (py_get data (lit ''data'') (JDict []))
                     (\<lambda>inner. py_get inner (lit ''token'') JNull) of
                Inl e \<Rightarrow> (Inl e, c, [Sent req])
              | Inr tok \<Rightarrow>
                  if \<not> truthy rt tok then
                    (let msg = lit ''TVDB authentication failed: token missing in response.''
                     in (Inl (TVDBAuthenticationError msg), c, [Sent req, Log ERROR msg []]))
                  else
                    (Inr (), c\<lparr>token := tok\<rparr>,
                     [Sent req, Log INFO (lit ''TVDB authentication successful'') []])))"

text \<open>\<open>TVDBClient._headers\<close>.\<close>

definition headers :: "pyrt \<Rightarrow> TVDBClient \<Rightarrow> error + (pystr \<times> pystr) list" where
  "headers rt c =
     (if \<not> truthy rt (token c)
      then Inl (TVDBAuthenticationError
                  (lit ''Client is not authenticated. Call authenticate() first.''))
      else Inr [(lit ''Authorization'', lit ''Bearer '' @ py_str rt (token c)),
                (lit ''Content-Type'', lit ''application/json'')])"

text \<open>
  \<open>TVDBClient.search(**params)\<close>. The arguments of \<open>session.get\<close> are evaluated
  before the call, so an exception of \<open>_headers\<close> leaves no request; it is no
  \<open>RequestException\<close> and passes the \<open>except\<close> clause. \<open>response.json()\<close> stands
  outside the \<open>try\<close>.
\<close>

definition is_none :: "json \<Rightarrow> bool" where
  "is_none v = (case v of JNull \<Rightarrow> True | _ \<Rightarrow> False)"

definition TVDBClient_search ::
  "pyrt \<Rightarrow> network \<Rightarrow> TVDBClient \<Rightarrow> (pystr \<times> json) list \<Rightarrow> (error + json) \<times> event list" where
  "TVDBClient_search rt net c params =
     (let url = TVDB_BASE_URL @ lit ''/search'';
          clean_params = filter (\<lambda>kv. \<not> is_none (snd kv)) params
      in case headers rt c of
           Inl e \<Rightarrow> (Inl e, [])
         | Inr hs \<Rightarrow>
             (let req = Get url clean_params hs
              in case net req of
                   Request_failed m \<Rightarrow>
                     (let msg = lit ''TVDB search failed: '' @ m
                      in (Inl (TVDBRequestError msg), [Sent req, Log ERROR msg []]))
                 | Body None \<Rightarrow> (Inl JSONDecodeError, [Sent req])
                 | Body (Some results) \<Rightarrow> (Inr results, [Sent req])))"

section \<open>The search tool (tvdb/helper.py)\<close>

definition valid_types :: "pystr list" where
  "valid_types = [lit ''series'', lit ''movie'', lit ''person'', lit ''company'']"

text \<open>
  \<open>TVDBSearchTool.search(query, content_type, year, company, limit)\<close> on the tool's
  client. \<open>params\<close> is the dict the source builds, in insertion order.
\<close>

definition TVDBSearchTool_search ::
  "pyrt \<Rightarrow> network \<Rightarrow> TVDBClient \<Rightarrow> pystr \<Rightarrow> pystr option \<Rightarrow> int option \<Rightarrow> pystr option \<Rightarrow> int
     \<Rightarrow> (error + pystr) \<times> event list" where
  "TVDBSearchTool_search rt net client query0 content_type year company limit =
     (let query = strip query0 in
      if query = [] then (Inl (ValueError (lit ''query is required and cannot be empty.'')), [])
      else if limit < 1 \<or> limit > 20
      then (Inl (ValueError (lit ''limit must be between 1 and 20.'')), [])
      else
        let params0 = [(lit ''query'', JStr query), (lit ''limit'', JInt limit)];
            (params1, ev1) =
              (case content_type of
                 None \<Rightarrow> (params0, [])
               | Some ct \<Rightarrow>
                   if ct = [] then (params0, [])
                   else
                     let normalized_type = str_lower rt ct
                     in (params0 @ [(lit ''type'', JStr normalized_type)],
                         if normalized_type \<notin> set valid_types
                         then [Log WARNING (lit ''Invalid content_type '%s', proceeding anyway.'')
                                 [Text ct]]
                         else []));
            params2 = (case year of None \<Rightarrow> params1
                       | Some y \<Rightarrow> params1 @ [(lit ''year'', JInt y)]);
            params3 = (case company of None \<Rightarrow> params2
                       | Some co \<Rightarrow> if co = [] then params2
                                   else params2 @ [(lit ''company'', JStr (strip co))]);
            ev2 = ev1 @ [Log INFO (lit ''Searching TVDB with parameters: %s'')
                           [Value (JDict params3)]];
            (res, ev3) = TVDBClient_search rt net client params3
        in case res of
             Inl e \<Rightarrow> (Inl e, ev2 @ ev3)
           | Inr results \<Rightarrow>
               (let ev4 = ev2 @ ev3 @ [Log DEBUG (lit ''TVDB raw search response: %s'')
                                        [Dumps results]]
                in case format_search_results rt results of
                     Inl e \<Rightarrow> (Inl e, ev4)
                   | Inr formatted \<Rightarrow>
                       (Inr formatted,
                        ev4 @ [Log DEBUG (lit ''TVDB formatted search output:'' @ [10] @ lit ''%s'') [Text formatted],
                               Log INFO (lit ''TVDB search completed successfully for query: '%s'' @ [39])
                                 [Text query]])))"

section \<open>The Wikipedia summary tool (tools/wikipedia_summary.py)\<close>

text \<open>
  The class tests of the \<open>except\<close> clauses: \<open>isinstance(e, LookupError)\<close> (which
  \<open>KeyError\<close> and \<open>IndexError\<close> pass) and \<open>isinstance(e, Exception)\<close> (which
  \<open>KeyboardInterrupt\<close> and \<open>asyncio.CancelledError\<close> fail); and \<open>str(e)\<close>, for the
  exceptions whose text the source reads.
\<close>

definition is_lookup_error :: "error \<Rightarrow> bool" where
  "is_lookup_error e = (case e of
      LookupError m \<Rightarrow> True
    | External c m \<Rightarrow> (case c of Lookup_error \<Rightarrow> True | _ \<Rightarrow> False)
    | _ \<Rightarrow> False)"

definition is_exception :: "error \<Rightarrow> bool" where
  "is_exception e = (case e of
      External c m \<Rightarrow> (case c of Base_exception \<Rightarrow> False | _ \<Rightarrow> True)
    | _ \<Rightarrow> True)"

definition exc_text :: "error \<Rightarrow> pystr" where
  "exc_text e = (case e of
      ValueError m \<Rightarrow> m
    | LookupError m \<Rightarrow> m
    | RuntimeError m \<Rightarrow> m
    | TVDBAuthenticationError m \<Rightarrow> m
    | TVDBRequestError m \<Rightarrow> m
    | MissingApiKeyError m \<Rightarrow> m
    | External c m \<Rightarrow> m
    | _ \<Rightarrow> [])"

text \<open>
  \<open>json.dumps(d, ensure_ascii=False)\<close> of a \<open>dict[str, str]\<close>: the quotation mark, the
  backslash and the code points below U+0020 are escaped (\<open>\b \f \n \r \t\<close>, else
  \<open>\u00xx\<close>), every other code point is written as it is; items are separated by
  a comma and a space, key and value by a colon and a space.
\<close>

definition hexdigit :: "nat \<Rightarrow> nat" where
  "hexdigit d = (if d < 10 then 48 + d else 87 + d)"

definition json_escape :: "nat \<Rightarrow> pystr" where
  "json_escape c =
     (if c = 34 then [92, 34]
      else if c = 92 then [92, 92]
      else if c = 8 then [92, 98]
      else if c = 12 then [92, 102]
      else if c = 10 then [92, 110]
      else if c = 13 then [92, 114]
      else if c = 9 then [92, 116]
      else if c < 32 then [92, 117, 48, 48, hexdigit (c div 16), hexdigit (c mod 16)]
      else [c])"

definition json_string :: "pystr \<Rightarrow> pystr" where
  "json_string s = [34] @ concat (map json_escape s) @ [34]"

definition json_dumps :: "(pystr \<times> pystr) list \<Rightarrow> pystr" where
  "json_dumps d =
     lit ''{'' @ join (lit '', '') (map (\<lambda>kv. json_string (fst kv) @ lit '': '' @ json_string (snd kv)) d)
     @ lit ''}''"

text \<open>
  What the lookup \<open>wiki.page(t)\<close> with \<open>page.exists()\<close>, \<open>page.title\<close> and
  \<open>page.summary\<close> gives, an input of the model: no such page, a page with its
  canonical title and its summary, or an exception raised by the library.
\<close>

datatype wiki_page = Page_missing | Page pystr pystr | Page_raised exn_class pystr

definition not_found_message :: "pystr \<Rightarrow> pystr" where
  "not_found_message title = lit ''No Wikipedia summary found for '' @ [39] @ title @ [39] @ lit ''.''"

text \<open>\<open>_fetch_wikipedia_summary(title)\<close>.\<close>

definition fetch_wikipedia_summary :: "(pystr \<Rightarrow> wiki_page) \<Rightarrow> pystr \<Rightarrow> error + (pystr \<times> pystr) list" where
  "fetch_wikipedia_summary wiki title = (case wiki (strip title) of
      Page_raised c m \<Rightarrow> Inl (External c m)
    | Page_missing \<Rightarrow> Inl (LookupError (not_found_message title))
    | Page page_title summary \<Rightarrow>
        if summary \<noteq> [] then Inr [(lit ''title'', page_title), (lit ''summary'', summary)]
        else Inl (LookupError (not_found_message title)))"

text \<open>\<open>get_series_movies_summary(title)\<close>.\<close>

definition get_series_movies_summary :: "(pystr \<Rightarrow> wiki_page) \<Rightarrow> pystr \<Rightarrow> (error + pystr) \<times> event list" where
  "get_series_movies_summary wiki title = (case fetch_wikipedia_summary wiki title of
      Inr result \<Rightarrow> (Inr (json_dumps result), [])
    | Inl exc \<Rightarrow>
        if is_lookup_error exc then
          (Inr (json_dumps [(lit ''title'', title), (lit ''summary'', not_found_message title)]),
           [Log INFO (lit ''No Wikipedia summary found for title=%r'') [Text title]])
        else if is_exception exc then
          (Inl (RuntimeError (lit ''Wikipedia summary retrieval failed: '' @ exc_text exc)),
           [Log ERROR (lit ''Failed to retrieve Wikipedia summary for title=%r'') [Text title]])
        else (Inl exc, []))"

section \<open>The agent (agents/movies_buddy_agent.py)\<close>

definition API_KEY_ENV_VARS :: "pystr list" where
  "API_KEY_ENV_VARS = [lit ''GEMINI_API_KEY'', lit ''GOOGLE_API_KEY'', lit ''GEMENI_API_KEY'']"

text \<open>
  \<open>_resolve_api_key(env)\<close>; \<open>environ\<close> is the process environment that \<open>os.getenv\<close>
  reads. The loop over the candidate names is \<open>resolve_loop\<close>.
\<close>

definition getenv :: "(pystr \<rightharpoonup> pystr) \<Rightarrow> pystr \<Rightarrow> pystr \<Rightarrow> pystr" where
  "getenv environ key dflt = (case environ key of Some v \<Rightarrow> v | None \<Rightarrow> dflt)"

text \<open>The expression \<^verbatim>\<open>env.get(key) or os.getenv(key, "")\<close>.\<close>

definition candidate :: "(pystr \<rightharpoonup> pystr) \<Rightarrow> (pystr \<rightharpoonup> pystr) \<Rightarrow> pystr \<Rightarrow> pystr" where
  "candidate env environ key = (case env key of
      Some x \<Rightarrow> if x \<noteq> [] then x else getenv environ key []
    | None \<Rightarrow> getenv environ key [])"

fun resolve_loop :: "(pystr \<rightharpoonup> pystr) \<Rightarrow> (pystr \<rightharpoonup> pystr) \<Rightarrow> pystr list \<Rightarrow> (error + pystr) \<times> event list" where
  "resolve_loop env environ [] =
     (Inl (MissingApiKeyError (lit ''Set GEMINI_API_KEY or GOOGLE_API_KEY before running.'')), [])"
| "resolve_loop env environ (key # keys) =
     (let v = candidate env environ key
      in if v \<noteq> [] then
           (Inr v,
            (if key = lit ''GEMENI_API_KEY''
             then [Log WARNING (lit ''Environment variable 'GEMENI_API_KEY' is a misspelling. Please migrate to 'GEMINI_API_KEY'.'') []]
             else [])
            @ [Log DEBUG (lit ''Using API key from %s'') [Text key]])
         else resolve_loop env environ keys)"

definition resolve_api_key :: "(pystr \<rightharpoonup> pystr) \<Rightarrow> (pystr \<rightharpoonup> pystr) \<Rightarrow> (error + pystr) \<times> event list" where
  "resolve_api_key env environ = resolve_loop env environ API_KEY_ENV_VARS"

text \<open>
  \<open>_extract_final_output(conversation, fallback)\<close>. A message is a dict; its content
  is a string or a list of parts.
\<close>

definition is_text_part :: "json \<Rightarrow> bool" where
  "is_text_part part = (case part of
      JDict d \<Rightarrow> (case map_of d (lit ''type'') of
                    Some t \<Rightarrow> (case t of JStr s \<Rightarrow> s = lit ''text'' | _ \<Rightarrow> False)
                  | None \<Rightarrow> False)
    | _ \<Rightarrow> False)"

definition part_text :: "json \<Rightarrow> json" where
  "part_text part = (case part of
      JDict d \<Rightarrow> (case map_of d (lit ''text'') of Some t \<Rightarrow> t | None \<Rightarrow> JStr [])
    | _ \<Rightarrow> JStr [])"

definition extract_final_output :: "pyrt \<Rightarrow> json list \<Rightarrow> pystr \<Rightarrow> error + pystr" where
  "extract_final_output rt conversation fallback =
     (if fallback \<noteq> [] then Inr fallback
      else if conversation = [] then Inr []
      else
        and_then (py_get (last conversation) (lit ''content'') (JStr [])) (\<lambda>content.
        case content of
          JStr s \<Rightarrow> Inr s
        | JList parts \<Rightarrow>
            and_then (str_items (filter (truthy rt) (map part_text (filter is_text_part parts))))
              (\<lambda>texts. Inr (join [10] texts))
        | _ \<Rightarrow> Inr []))"

text \<open>
  What \<open>create_movies_buddy_agent(env)\<close> assembles, as far as the repository decides
  it: the key, the endpoint, the model and the tracing flag. The constructors of the
  libraries (\<open>AsyncOpenAI\<close>, \<open>Agent\<close>, \<open>RunConfig\<close>, \<open>MCPServerStdio\<close>) are taken to
  return.
\<close>

record agent_setup =
  key :: pystr
  base_url :: pystr
  model_id :: pystr
  tracing_disabled :: bool

text \<open>
  The surroundings of a run, inputs of the model: the environment
  \<open>load_environment_variables()\<close> returns (a copy of \<open>os.environ\<close>), the module
  constant \<open>GEMINI_BASE_URL\<close> (read from the environment at import), whether the
  server script is a file, and the agent runtime. \<open>runner\<close> is the whole
  \<^verbatim>\<open>async with mcp_server: ... await ...\<close> block, given the bound of the wait (if any)
  and the working list: its outcome, and the contents of the working list afterwards
  (the runtime holds no other list of the caller's). Time is not modelled: that the
  bounded wait elapsed is the outcome \<open>Run_raised Timeout_error\<close>
  (\<open>asyncio.TimeoutError\<close>).
\<close>

datatype run_outcome = Completed "json list" "pystr option" | Run_raised exn_class pystr

record world =
  environ :: "pystr \<rightharpoonup> pystr"
  GEMINI_BASE_URL :: pystr
  script_is_file :: bool
  runner :: "agent_setup \<Rightarrow> pyfloat option \<Rightarrow> json list \<Rightarrow> run_outcome \<times> json list"

text \<open>\<open>create_movies_buddy_agent(env)\<close>.\<close>

definition create_movies_buddy_agent :: "pyrt \<Rightarrow> world \<Rightarrow> (pystr \<rightharpoonup> pystr) \<Rightarrow> (error + agent_setup) \<times> event list" where
  "create_movies_buddy_agent rt w env = (case resolve_api_key env (environ w) of
      (Inl e, evs) \<Rightarrow> (Inl e, evs)
    | (Inr found_key, evs) \<Rightarrow>
        if \<not> script_is_file w then (Inl FileNotFoundError, evs)
        else
          (let model = getenv env (lit ''GEMINI_MODEL'') (lit ''gemini-2.5-pro'')
           in (Inr \<lparr>key = found_key,
                     base_url = getenv env (lit ''GEMINI_BASE_URL'') (GEMINI_BASE_URL w),
                     model_id = model,
                     tracing_disabled =
                       (str_lower rt (getenv env (lit ''AGENT_TRACING'') (lit ''true''))
                          \<in> set [lit ''1'', lit ''true'', lit ''yes''])\<rparr>,
               evs @ [Log INFO (lit ''Created Movies Buddy agent with model %s'') [Text model]])))"

text \<open>
  Lists are mutable objects, and the runner works on a copy of the caller's list: the
  store holds the contents of every list object, a reference is its position in the
  store, and a new list is allocated at the end. References handed in are allocated.
\<close>

type_synonym ref = nat

type_synonym store = "json list list"

text \<open>\<open>conversation_history or []\<close>: the caller's list when it is non-empty, else a new empty list.\<close>

definition history_or_empty :: "store \<Rightarrow> ref option \<Rightarrow> ref \<times> store" where
  "history_or_empty h conversation_history = (case conversation_history of
      None \<Rightarrow> (length h, h @ [[]])
    | Some r \<Rightarrow> if h ! r \<noteq> [] then (r, h) else (length h, h @ [[]]))"

text \<open>
  \<open>run_movies_buddy_agent(user_input, conversation_history, timeout_s)\<close>: the exception
  raised, or the pair returned (the list by reference), with the store afterwards.
  \<open>messages\<close> is the reference of the working list \<open>list(conversation_history or [])\<close>.
\<close>

definition run_movies_buddy_agent ::
  "pyrt \<Rightarrow> world \<Rightarrow> store \<Rightarrow> pystr \<Rightarrow> ref option \<Rightarrow> pyfloat option
     \<Rightarrow> (error + ref \<times> pystr) \<times> store \<times> event list" where
  "run_movies_buddy_agent rt w h user_input conversation_history timeout_s =
     (case create_movies_buddy_agent rt w (environ w) of
        (Inl e, evs) \<Rightarrow> (Inl e, h, evs)
      | (Inr agent, evs) \<Rightarrow>
          (let (src, h0) = history_or_empty h conversation_history;
               messages = length h0;
               h1 = h0 @ [h0 ! src];
               h2 = h1[messages := h1 ! messages
                        @ [JDict [(lit ''role'', JStr (lit ''user'')), (lit ''content'', JStr user_input)]]];
               bound = (case timeout_s of
                          Some t \<Rightarrow> if float_bool rt t then Some t else None
                        | None \<Rightarrow> None);
               (outcome, after) = runner w agent bound (h2 ! messages);
               h3 = h2[messages := after];
               seconds = (case timeout_s of Some t \<Rightarrow> JFloat t | None \<Rightarrow> JNull);
               give_up = (\<lambda>text ev.
                  let (r, h4) = history_or_empty h3 conversation_history
                  in (Inr (r, text), h4, evs @ [ev]))
           in case outcome of
                Completed conversation final_output \<Rightarrow>
                  (case extract_final_output rt conversation
                          (case final_output of Some s \<Rightarrow> s | None \<Rightarrow> []) of
                     Inl e \<Rightarrow>
                       give_up (lit ''The agent failed to run.'')
                         (Log ERROR (lit ''Movies Buddy agent run failed: %s'') [Exc e])
                   | Inr out \<Rightarrow>
                       (Inr (length h3, out), h3 @ [conversation],
                        evs @ [Log INFO (lit ''Movies Buddy agent run completed'') []]))
              | Run_raised c m \<Rightarrow>
                  (case c of
                     Timeout_error \<Rightarrow>
                       give_up (lit ''Request timed out.'')
                         (Log WARNING (lit ''Movies Buddy agent run timed out after %s seconds'')
                            [Value seconds])
                   | Missing_api_key \<Rightarrow> (Inl (MissingApiKeyError m), h3, evs)
                   | Base_exception \<Rightarrow> (Inl (External c m), h3, evs)
                   | _ \<Rightarrow>
                       give_up (lit ''The agent failed to run.'')
                         (Log ERROR (lit ''Movies Buddy agent run failed: %s'') [Exc (External c m)]))))"

section \<open>Well-formed search result records\<close>

text \<open>
  The shape of a search result record: a mapping with no required field, whose
  \<open>type\<close> is a string when present, whose \<open>overview\<close> is free text (or null), and
  whose \<open>companies\<close> and \<open>genres\<close> are lists of strings or of name-bearing records
  (or null). The fields \<open>name\<close>, \<open>year\<close>, \<open>tvdb_id\<close> and \<open>id\<close> may hold any value.
\<close>

definition name_entry :: "json \<Rightarrow> bool" where
  "name_entry x = (case x of
      JStr s \<Rightarrow> True
    | JDict d \<Rightarrow> (case map_of d (lit ''name'') of
                    None \<Rightarrow> True
                  | Some n \<Rightarrow> (case n of JStr s \<Rightarrow> True | _ \<Rightarrow> False))
    | _ \<Rightarrow> False)"

definition name_list :: "json option \<Rightarrow> bool" where
  "name_list field = (case field of
      None \<Rightarrow> True
    | Some v \<Rightarrow> (case v of JNull \<Rightarrow> True | JList xs \<Rightarrow> list_all name_entry xs | _ \<Rightarrow> False))"

definition free_text :: "json option \<Rightarrow> bool" where
  "free_text field = (case field of
      None \<Rightarrow> True
    | Some v \<Rightarrow> (case v of JNull \<Rightarrow> True | JStr s \<Rightarrow> True | _ \<Rightarrow> False))"

definition well_formed_record :: "json \<Rightarrow> bool" where
  "well_formed_record item = (case item of
      JDict d \<Rightarrow>
        (case map_of d (lit ''type'') of
           None \<Rightarrow> True
         | Some t \<Rightarrow> (case t of JStr s \<Rightarrow> True | _ \<Rightarrow> False))
        \<and> free_text (map_of d (lit ''overview''))
        \<and> name_list (map_of d (lit ''companies''))
        \<and> name_list (map_of d (lit ''genres''))
    | _ \<Rightarrow> False)"

text \<open>
  The identifier an entry shows, stated on the fields of the record: \<open>tvdb_id\<close> when
  it is present and true in a boolean test, else \<open>id\<close> when it is present, else
  \<open>N/A\<close>.
\<close>

definition shown_identifier :: "pyrt \<Rightarrow> (pystr \<times> json) list \<Rightarrow> json" where
  "shown_identifier rt d =
     (let second = (case map_of d (lit ''id'') of Some w \<Rightarrow> w | None \<Rightarrow> JStr (lit ''N/A''))
      in case map_of d (lit ''tvdb_id'') of
           Some v \<Rightarrow> if truthy rt v then v else second
         | None \<Rightarrow> second)"

section \<open>A runtime for concrete runs\<close>

text \<open>
  \<open>str.lower\<close> and \<open>str.title\<close> as they are on ASCII text (\<open>title\<close>: a letter after
  a letter is lowered, any other letter is raised). The concrete runs that use it
  are on ASCII text and reach neither \<open>repr\<close> nor a float.
\<close>

definition ascii_letter :: "nat \<Rightarrow> bool" where
  "ascii_letter c \<longleftrightarrow> (65 \<le> c \<and> c \<le> 90) \<or> (97 \<le> c \<and> c \<le> 122)"

definition ascii_lower :: "nat \<Rightarrow> nat" where
  "ascii_lower c = (if 65 \<le> c \<and> c \<le> 90 then c + 32 else c)"

definition ascii_upper :: "nat \<Rightarrow> nat" where
  "ascii_upper c = (if 97 \<le> c \<and> c \<le> 122 then c - 32 else c)"

fun ascii_title :: "bool \<Rightarrow> pystr \<Rightarrow> pystr" where
  "ascii_title previous_is_cased [] = []"
| "ascii_title previous_is_cased (c # cs) =
     (if previous_is_cased then ascii_lower c else ascii_upper c) # ascii_title (ascii_letter c) cs"

definition ascii_runtime :: pyrt where
  "ascii_runtime = \<lparr>str_lower = map ascii_lower, str_title = ascii_title False,
                     repr = (\<lambda>v. []), float_bool = (\<lambda>f. True)\<rparr>"

section \<open>Basic facts\<close>

lemma and_then_Inr [simp]: "and_then (Inr x) f = f x"
  by (simp add: and_then_def)

lemma and_then_Inl [simp]: "and_then (Inl e) f = Inl e"
  by (simp add: and_then_def)

lemma lit_eq_iff [simp]: "lit a = lit b \<longleftrightarrow> a = b"
proof -
  have "inj (of_char :: char \<Rightarrow> nat)"
    by (rule inj_of_char)
  then show ?thesis
    unfolding lit_def by (rule inj_map_eq_map)
qed

lemma all_dropWhile_iff: "(\<forall>x\<in>set (dropWhile P xs). P x) \<longleftrightarrow> (\<forall>x\<in>set xs. P x)"
  by (induction xs) auto

lemma strip_empty_iff: "strip s = [] \<longleftrightarrow> (\<forall>c\<in>set s. isspace c)"
  unfolding strip_def by (simp add: all_dropWhile_iff)

section \<open>Validation in the search tool\<close>

text \<open>
  Claim C1. \<open>TVDBSearchTool.search\<close> on a query that is empty or consists of white
  space only raises \<open>ValueError("query is required and cannot be empty.")\<close>, whatever
  the limit is; on any other query with a limit below 1 or above 20 it raises
  \<open>ValueError("limit must be between 1 and 20.")\<close>. In both cases nothing has been
  logged, no request has been sent and the outcome does not depend on the client or
  the network: the client's search has not been called.
\<close>

theorem search_rejects_invalid_input:
  "((\<forall>c\<in>set query. isspace c) \<longrightarrow>
      TVDBSearchTool_search rt net client query content_type year company limit =
        (Inl (ValueError (lit ''query is required and cannot be empty.'')), []))
   \<and> (\<not> (\<forall>c\<in>set query. isspace c) \<and> (limit < 1 \<or> 20 < limit) \<longrightarrow>
      TVDBSearchTool_search rt net client query content_type year company limit =
        (Inl (ValueError (lit ''limit must be between 1 and 20.'')), []))"
  by (simp add: TVDBSearchTool_search_def strip_empty_iff Let_def)

theorem search_rejects_invalid_input_witness:
  "TVDBSearchTool_search ascii_runtime (\<lambda>r. Body None) (new_client [] []) (lit '' '' @ [9])
      (Some (lit ''movie'')) None None 50 =
     (Inl (ValueError (lit ''query is required and cannot be empty.'')), [])
   \<and> TVDBSearchTool_search ascii_runtime (\<lambda>r. Body None) (new_client [] []) (lit ''Dune'')
      None None None 21 =
     (Inl (ValueError (lit ''limit must be between 1 and 20.'')), [])
   \<and> TVDBSearchTool_search ascii_runtime (\<lambda>r. Body None) (new_client [] []) (lit ''Dune'')
      None None None 0 =
     (Inl (ValueError (lit ''limit must be between 1 and 20.'')), [])"
  using search_rejects_invalid_input [where query = "lit '' '' @ [9]" and limit = 50
          and rt = ascii_runtime and net = "\<lambda>r. Body None" and client = "new_client [] []"
          and content_type = "Some (lit ''movie'')" and year = None and company = None]
        search_rejects_invalid_input [where query = "lit ''Dune''" and limit = 21
          and rt = ascii_runtime and net = "\<lambda>r. Body None" and client = "new_client [] []"
          and content_type = None and year = None and company = None]
        search_rejects_invalid_input [where query = "lit ''Dune''" and limit = 0
          and rt = ascii_runtime and net = "\<lambda>r. Body None" and client = "new_client [] []"
          and content_type = None and year = None and company = None]
  by (simp add: isspace_def lit_def)

section \<open>The formatter\<close>

text \<open>
  Claim C4. When the response is absent (\<open>None\<close>) or empty, or its \<open>data\<close> field is
  absent, null or an empty list, \<open>format_search_results\<close> returns the text
  \<open>No results found for the search query.\<close>, whatever else the response holds.
\<close>

theorem format_no_results:
  assumes "results = JNull \<or> results = JDict [] \<or>
           (\<exists>d. results = JDict d \<and>
                (map_of d (lit ''data'') = None \<or> map_of d (lit ''data'') = Some JNull \<or>
                 map_of d (lit ''data'') = Some (JList [])))"
  shows "format_search_results rt results = Inr (lit ''No results found for the search query.'')"
  using assms by (auto simp: format_search_results_def truthy_def py_get_def)

theorem format_no_results_witness:
  "format_search_results ascii_runtime
     (JDict [(lit ''status'', JStr (lit ''success'')), (lit ''data'', JList []),
             (lit ''links'', JDict [(lit ''total_items'', JInt 7)])])
   = Inr (lit ''No results found for the search query.'')"
  using format_no_results [where rt = ascii_runtime and results =
     "JDict [(lit ''status'', JStr (lit ''success'')), (lit ''data'', JList []),
             (lit ''links'', JDict [(lit ''total_items'', JInt 7)])]"]
  by simp

lemma str_items_strings:
  "list_all (\<lambda>x. case x of JStr s \<Rightarrow> True | _ \<Rightarrow> False) xs \<Longrightarrow> \<exists>ss. str_items xs = Inr ss"
  by (induction xs rule: str_items.induct) auto

lemma truthy_JNull [simp]: "\<not> truthy rt JNull"
  by (simp add: truthy_def)

lemma entry_name_string:
  assumes "name_entry x"
  shows "\<exists>s. entry_name rt x = JStr s"
proof (cases x)
  case (JDict d)
  show ?thesis
  proof (cases "map_of d (lit ''name'')")
    case None
    with JDict show ?thesis by (simp add: entry_name_def)
  next
    case (Some n)
    with JDict assms show ?thesis
      by (cases n) (simp_all add: entry_name_def name_entry_def)
  qed
qed (use assms in \<open>simp_all add: entry_name_def name_entry_def\<close>)

lemma joined_names_ok:
  assumes "name_list (Some v)" and "truthy rt v"
  shows "\<exists>s. joined_names rt n v = Inr s"
proof -
  from assms obtain xs where v: "v = JList xs" and all: "list_all name_entry xs"
    by (auto simp: name_list_def truthy_def split: json.splits)
  have "list_all name_entry (take n xs)"
    using all by (auto simp: list_all_iff dest: in_set_takeD)
  then have "list_all (\<lambda>x. case x of JStr s \<Rightarrow> True | _ \<Rightarrow> False) (map (entry_name rt) (take n xs))"
    by (auto simp: list_all_iff dest!: entry_name_string [where rt = rt])
  then obtain ss where "str_items (map (entry_name rt) (take n xs)) = Inr ss"
    using str_items_strings by blast
  then show ?thesis
    by (simp add: joined_names_def py_prefix_def v)
qed

lemma names_line_ok:
  assumes "name_list field"
  shows "\<exists>ls. (if truthy rt (case field of Some x \<Rightarrow> x | None \<Rightarrow> JNull)
               then and_then (joined_names rt n (case field of Some x \<Rightarrow> x | None \<Rightarrow> JNull))
                      (\<lambda>names. Inr [p @ names])
               else Inr []) = Inr ls"
proof (cases field)
  case None
  then show ?thesis by (simp add: truthy_def)
next
  case (Some v)
  show ?thesis
  proof (cases "truthy rt v")
    case True
    with assms Some obtain s where "joined_names rt n v = Inr s"
      using joined_names_ok by blast
    with Some True show ?thesis by simp
  next
    case False
    with Some show ?thesis by simp
  qed
qed

lemma format_item_well_formed:
  assumes wf: "well_formed_record (JDict d)"
  shows "\<exists>tail. format_item rt index (JDict d) =
     Inr ((show_int index @ lit ''. **''
             @ py_str rt (case map_of d (lit ''name'') of Some x \<Rightarrow> x | None \<Rightarrow> JStr (lit ''N/A''))
             @ lit ''** (''
             @ str_title rt (case map_of d (lit ''type'') of Some (JStr t) \<Rightarrow> t | _ \<Rightarrow> lit ''N/A'')
             @ lit '', ''
             @ py_str rt (case map_of d (lit ''year'') of Some x \<Rightarrow> x | None \<Rightarrow> JStr (lit ''N/A''))
             @ lit '')'')
          # (lit ''   - TVDB ID: '' @ py_str rt (shown_identifier rt d))
          # (case map_of d (lit ''overview'') of
               Some (JStr s) \<Rightarrow>
                 if s = [] then []
                 else [lit ''   - Overview: '' @ (if length s > 200 then take 200 s @ lit ''...'' else s)]
             | _ \<Rightarrow> [])
          @ tail)"
proof -
  from wf have ty: "map_of d (lit ''type'') = None \<or> (\<exists>t. map_of d (lit ''type'') = Some (JStr t))"
    and ov: "free_text (map_of d (lit ''overview''))"
    and co: "name_list (map_of d (lit ''companies''))"
    and ge: "name_list (map_of d (lit ''genres''))"
    by (auto simp: well_formed_record_def split: option.splits json.splits)
  obtain cl where cl: "(if truthy rt (case map_of d (lit ''companies'') of Some x \<Rightarrow> x | None \<Rightarrow> JNull)
               then and_then (joined_names rt 3 (case map_of d (lit ''companies'') of Some x \<Rightarrow> x | None \<Rightarrow> JNull))
                      (\<lambda>names. Inr [lit ''   - Networks/Companies: '' @ names])
               else Inr []) = Inr cl"
    using names_line_ok [OF co] by blast
  obtain gl where gl: "(if truthy rt (case map_of d (lit ''genres'') of Some x \<Rightarrow> x | None \<Rightarrow> JNull)
               then and_then (joined_names rt 5 (case map_of d (lit ''genres'') of Some x \<Rightarrow> x | None \<Rightarrow> JNull))
                      (\<lambda>names. Inr [lit ''   - Genres: '' @ names])
               else Inr []) = Inr gl"
    using names_line_ok [OF ge] by blast
  have ovl: "(if truthy rt (case map_of d (lit ''overview'') of Some x \<Rightarrow> x | None \<Rightarrow> JNull)
               then and_then (truncated rt (case map_of d (lit ''overview'') of Some x \<Rightarrow> x | None \<Rightarrow> JNull))
                      (\<lambda>t. Inr [lit ''   - Overview: '' @ t])
               else Inr [])
       = Inr (case map_of d (lit ''overview'') of
               Some (JStr s) \<Rightarrow>
                 if s = [] then []
                 else [lit ''   - Overview: '' @ (if length s > 200 then take 200 s @ lit ''...'' else s)]
             | _ \<Rightarrow> [])"
    using ov by (auto simp: free_text_def truthy_def truncated_def split: option.splits json.splits)
  have tl: "title_of rt (case map_of d (lit ''type'') of Some x \<Rightarrow> x | None \<Rightarrow> JStr (lit ''N/A''))
      = Inr (str_title rt (case map_of d (lit ''type'') of Some (JStr t) \<Rightarrow> t | _ \<Rightarrow> lit ''N/A''))"
    using ty by (auto simp: title_of_def)
  have idl: "shown_identifier rt d =
         (if truthy rt (case map_of d (lit ''tvdb_id'') of Some x \<Rightarrow> x | None \<Rightarrow> JNull)
          then (case map_of d (lit ''tvdb_id'') of Some x \<Rightarrow> x | None \<Rightarrow> JNull)
          else (case map_of d (lit ''id'') of Some x \<Rightarrow> x | None \<Rightarrow> JStr (lit ''N/A'')))"
    by (simp add: shown_identifier_def Let_def split: option.splits)
  show ?thesis
    unfolding format_item_def py_get_def
    by (simp add: tl idl ovl cl gl)
qed


text \<open>
  Claim C5. For a record whose \<open>overview\<close> is a non-empty string, the third line of
  its entry is the Overview line: the overview itself when it has at most 200 code
  points, its first 200 code points followed by \<open>...\<close> when it has more. A well-formed
  record has the line; for any other mapping the line is as stated whenever
  \<open>_format_item\<close> returns.
\<close>

theorem overview_line_truncation:
  assumes "map_of d (lit ''overview'') = Some (JStr s)" and "s \<noteq> []"
  shows "(well_formed_record (JDict d) \<longrightarrow>
           (\<exists>entry_line id_line rest. format_item rt index (JDict d) =
              Inr (entry_line # id_line
                   # (lit ''   - Overview: '' @ (if length s \<le> 200 then s else take 200 s @ lit ''...''))
                   # rest)))
       \<and> (\<forall>ls. format_item rt index (JDict d) = Inr ls \<longrightarrow>
             2 < length ls \<and>
             ls ! 2 = lit ''   - Overview: '' @ (if length s \<le> 200 then s else take 200 s @ lit ''...''))"
proof -
  have a: "\<exists>entry_line id_line rest. format_item rt index (JDict d) =
              Inr (entry_line # id_line
                   # (lit ''   - Overview: '' @ (if length s \<le> 200 then s else take 200 s @ lit ''...''))
                   # rest)"
    if "well_formed_record (JDict d)"
    using format_item_well_formed [OF that, of rt index] assms by auto
  have b: "2 < length ls \<and>
             ls ! 2 = lit ''   - Overview: '' @ (if length s \<le> 200 then s else take 200 s @ lit ''...'')"
    if "format_item rt index (JDict d) = Inr ls" for ls
    using that assms
    by (auto simp: format_item_def py_get_def and_then_def truthy_def truncated_def
             split: sum.splits if_splits)
  from a b show ?thesis by blast
qed


text \<open>The definitions a concrete run of the formatter unfolds.\<close>

lemmas run_defs =
  format_search_results_def format_item_def py_get_def py_len_def py_iter_def py_prefix_def
  truthy_def py_str_def title_of_def truncated_def joined_names_def entry_name_def
  show_int_def show_nat.simps ascii_runtime_def ascii_lower_def ascii_upper_def
  ascii_letter_def lit_def

theorem overview_line_truncation_witness:
  "format_item ascii_runtime 1
     (JDict [(lit ''name'', JStr (lit ''Dune'')), (lit ''overview'', JStr (replicate 200 120))])
     = Inr [lit ''1. **Dune** (N/A, N/A)'', lit ''   - TVDB ID: N/A'',
            lit ''   - Overview: '' @ replicate 200 120]
   \<and> format_item ascii_runtime 1
     (JDict [(lit ''name'', JStr (lit ''Dune'')), (lit ''overview'', JStr (replicate 201 120))])
     = Inr [lit ''1. **Dune** (N/A, N/A)'', lit ''   - TVDB ID: N/A'',
            lit ''   - Overview: '' @ replicate 200 120 @ lit ''...'']"
  using overview_line_truncation [where rt = ascii_runtime and index = 1
          and s = "replicate 200 120"
          and d = "[(lit ''name'', JStr (lit ''Dune'')), (lit ''overview'', JStr (replicate 200 120))]"]
        overview_line_truncation [where rt = ascii_runtime and index = 1
          and s = "replicate 201 120"
          and d = "[(lit ''name'', JStr (lit ''Dune'')), (lit ''overview'', JStr (replicate 201 120))]"]
  by (simp add: run_defs)

lemma join_Cons: "ys \<noteq> [] \<Longrightarrow> join sep (x # ys) = x @ sep @ join sep ys"
  by (cases ys) simp_all

lemma well_formed_record_dict: "well_formed_record item \<Longrightarrow> \<exists>d. item = JDict d"
  by (cases item) (simp_all add: well_formed_record_def)

lemma format_items_blocks:
  assumes "list_all well_formed_record items"
  shows "\<exists>blocks. length blocks = length items
           \<and> format_items rt index items = Inr (concat blocks)
           \<and> (\<forall>k<length items. format_item rt (index + int k) (items ! k) = Inr (blocks ! k))"
  using assms
proof (induction items arbitrary: index)
  case Nil
  then show ?case by simp
next
  case (Cons item items)
  then have wf: "well_formed_record item" and rest: "list_all well_formed_record items"
    by simp_all
  from wf obtain d where d: "item = JDict d"
    using well_formed_record_dict by blast
  with wf obtain b where b: "format_item rt index item = Inr b"
    using format_item_well_formed [of d rt index] by auto
  from Cons.IH [OF rest, of "index + 1"] obtain bs where
    len: "length bs = length items"
    and all: "format_items rt (index + 1) items = Inr (concat bs)"
    and each: "\<forall>k<length items. format_item rt (index + 1 + int k) (items ! k) = Inr (bs ! k)"
    by blast
  have "\<forall>k<length (item # items).
          format_item rt (index + int k) ((item # items) ! k) = Inr ((b # bs) ! k)"
  proof (intro allI impI)
    fix k assume k: "k < length (item # items)"
    show "format_item rt (index + int k) ((item # items) ! k) = Inr ((b # bs) ! k)"
    proof (cases k)
      case 0
      with b show ?thesis by simp
    next
      case (Suc j)
      with k have "j < length items" by simp
      with each have "format_item rt (index + 1 + int j) (items ! j) = Inr (bs ! j)"
        by simp
      then show ?thesis using Suc by (simp add: add.assoc)
    qed
  qed
  moreover have "format_items rt index (item # items) = Inr (concat (b # bs))"
    by (simp add: b all)
  moreover have "length (b # bs) = length (item # items)"
    by (simp add: len)
  ultimately show ?case by blast
qed

text \<open>
  Claim C6, as amended. For a response whose \<open>data\<close> is a non-empty list of \<open>N\<close>
  well-formed records, \<open>format_search_results\<close> returns the line
  \<open>Found N results:\<close>, a blank line, and then the entries of the records joined by
  newlines, in the order of the input: the \<open>k\<close>-th block is what \<open>_format_item\<close>
  yields for the \<open>k\<close>-th record under the number \<open>k\<close> (counted from 1), it starts with
  a line that begins with that number, and its second line shows \<open>tvdb_id\<close> when that
  field is present and true in a boolean test, otherwise \<open>id\<close> when present, otherwise
  \<open>N/A\<close>.
\<close>

theorem format_results_entries:
  assumes data: "map_of r (lit ''data'') = Some (JList items)"
    and nonempty: "items \<noteq> []"
    and wf: "list_all well_formed_record items"
  shows "\<exists>blocks. length blocks = length items
     \<and> format_search_results rt (JDict r) =
           Inr (lit ''Found '' @ show_nat (length items) @ lit '' results:'' @ [10, 10]
                @ join [10] (concat blocks))
     \<and> (\<forall>k<length items.
           format_item rt (int k + 1) (items ! k) = Inr (blocks ! k)
           \<and> (\<exists>d text rest. items ! k = JDict d
                \<and> blocks ! k = (show_int (int k + 1) @ lit ''. **'' @ text)
                       # (lit ''   - TVDB ID: '' @ py_str rt (shown_identifier rt d)) # rest))"
proof -
  from format_items_blocks [OF wf, of rt 1] obtain blocks where
    len: "length blocks = length items"
    and all: "format_items rt 1 items = Inr (concat blocks)"
    and each: "\<forall>k<length items. format_item rt (1 + int k) (items ! k) = Inr (blocks ! k)"
    by blast
  have shape: "format_item rt (int k + 1) (items ! k) = Inr (blocks ! k)
           \<and> (\<exists>d text rest. items ! k = JDict d
                \<and> blocks ! k = (show_int (int k + 1) @ lit ''. **'' @ text)
                       # (lit ''   - TVDB ID: '' @ py_str rt (shown_identifier rt d)) # rest)"
    if k: "k < length items" for k
  proof -
    from k each have run: "format_item rt (int k + 1) (items ! k) = Inr (blocks ! k)"
      by (simp add: add.commute)
    from k wf have "well_formed_record (items ! k)"
      by (simp add: list_all_length)
    then obtain d where d: "items ! k = JDict d" and wfd: "well_formed_record (JDict d)"
      using well_formed_record_dict by metis
    from format_item_well_formed [OF wfd, of rt "int k + 1"] run d show ?thesis
      by auto
  qed
  from nonempty have "0 < length items" by simp
  from shape [OF this] len nonempty have "blocks ! 0 \<noteq> []" and "blocks \<noteq> []"
    by auto
  then have "concat blocks \<noteq> []"
    by (cases blocks) auto
  moreover from data have "r \<noteq> []"
    by auto
  ultimately have "format_search_results rt (JDict r) =
           Inr (lit ''Found '' @ show_nat (length items) @ lit '' results:'' @ [10, 10]
                @ join [10] (concat blocks))"
    using data nonempty all
    by (simp add: format_search_results_def py_get_def truthy_def py_len_def py_iter_def
          join_Cons lit_def)
  with len shape show ?thesis by blast
qed

theorem format_results_identifier_counterexample:
  "map_of [(lit ''name'', JStr (lit ''Foundation'')), (lit ''type'', JStr (lit ''series'')),
           (lit ''year'', JInt 2021), (lit ''tvdb_id'', JInt 0), (lit ''id'', JInt 12345)]
     (lit ''tvdb_id'') = Some (JInt 0)
   \<and> map_of [(lit ''name'', JStr (lit ''Foundation'')), (lit ''type'', JStr (lit ''series'')),
           (lit ''year'', JInt 2021), (lit ''tvdb_id'', JInt 0), (lit ''id'', JInt 12345)]
     (lit ''id'') = Some (JInt 12345)
   \<and> format_search_results ascii_runtime
       (JDict [(lit ''data'', JList [JDict
          [(lit ''name'', JStr (lit ''Foundation'')), (lit ''type'', JStr (lit ''series'')),
           (lit ''year'', JInt 2021), (lit ''tvdb_id'', JInt 0), (lit ''id'', JInt 12345)]])])
     = Inr (lit ''Found 1 results:'' @ [10, 10] @ lit ''1. **Foundation** (Series, 2021)'' @ [10]
            @ lit ''   - TVDB ID: 12345'')"
  by (simp add: run_defs)

theorem format_results_entries_witness:
  "list_all well_formed_record
     [JDict [(lit ''name'', JStr (lit ''Foundation'')), (lit ''type'', JStr (lit ''series'')),
             (lit ''year'', JInt 2021), (lit ''tvdb_id'', JInt 12345),
             (lit ''id'', JStr (lit ''series-12345''))],
      JDict [(lit ''name'', JStr (lit ''Dune'')), (lit ''id'', JStr (lit ''movie-7''))]]
   \<and> format_search_results ascii_runtime
       (JDict [(lit ''data'', JList
         [JDict [(lit ''name'', JStr (lit ''Foundation'')), (lit ''type'', JStr (lit ''series'')),
                 (lit ''year'', JInt 2021), (lit ''tvdb_id'', JInt 12345),
                 (lit ''id'', JStr (lit ''series-12345''))],
          JDict [(lit ''name'', JStr (lit ''Dune'')), (lit ''id'', JStr (lit ''movie-7''))]])])
     = Inr (lit ''Found 2 results:'' @ [10, 10]
            @ lit ''1. **Foundation** (Series, 2021)'' @ [10]
            @ lit ''   - TVDB ID: 12345'' @ [10]
            @ lit ''2. **Dune** (N/A, N/A)'' @ [10]
            @ lit ''   - TVDB ID: movie-7'')"
  using format_results_entries [where rt = ascii_runtime
    and r = "[(lit ''data'', JList
         [JDict [(lit ''name'', JStr (lit ''Foundation'')), (lit ''type'', JStr (lit ''series'')),
                 (lit ''year'', JInt 2021), (lit ''tvdb_id'', JInt 12345),
                 (lit ''id'', JStr (lit ''series-12345''))],
          JDict [(lit ''name'', JStr (lit ''Dune'')), (lit ''id'', JStr (lit ''movie-7''))]])]"
    and items = "[JDict [(lit ''name'', JStr (lit ''Foundation'')), (lit ''type'', JStr (lit ''series'')),
                 (lit ''year'', JInt 2021), (lit ''tvdb_id'', JInt 12345),
                 (lit ''id'', JStr (lit ''series-12345''))],
          JDict [(lit ''name'', JStr (lit ''Dune'')), (lit ''id'', JStr (lit ''movie-7''))]]"]
  by (simp add: run_defs well_formed_record_def free_text_def name_list_def)

section \<open>The search tool on valid input\<close>

lemma client_search_events:
  assumes "e \<in> set (snd (TVDBClient_search rt net c ps))"
  shows "(\<exists>req. e = Sent req) \<or> (\<exists>m. e = Log ERROR m [])"
  using assms
  by (auto simp: TVDBClient_search_def Let_def split: sum.splits reply.splits option.splits)

lemma search_valid:
  assumes "strip query \<noteq> []" and "1 \<le> limit" and "limit \<le> 20"
    and "params = [(lit ''query'', JStr (strip query)), (lit ''limit'', JInt limit)]
           @ (case content_type of
                None \<Rightarrow> []
              | Some ct \<Rightarrow> if ct = [] then [] else [(lit ''type'', JStr (str_lower rt ct))])
           @ (case year of None \<Rightarrow> [] | Some y \<Rightarrow> [(lit ''year'', JInt y)])
           @ (case company of
                None \<Rightarrow> []
              | Some co \<Rightarrow> if co = [] then [] else [(lit ''company'', JStr (strip co))])"
    and "warn = (case content_type of
                   None \<Rightarrow> []
                 | Some ct \<Rightarrow>
                     if ct = [] \<or> str_lower rt ct \<in> set valid_types then []
                     else [Log WARNING (lit ''Invalid content_type '%s', proceeding anyway.'')
                             [Text ct]])"
  shows "\<exists>rest. TVDBSearchTool_search rt net client query content_type year company limit =
           (and_then (fst (TVDBClient_search rt net client params)) (format_search_results rt),
            warn @ Log INFO (lit ''Searching TVDB with parameters: %s'') [Value (JDict params)]
              # snd (TVDBClient_search rt net client params) @ rest)
         \<and> (\<forall>e\<in>set rest. \<exists>m a. e = Log DEBUG m a \<or> e = Log INFO m a)"
proof -
  have valid: "strip query \<noteq> []" "\<not> (limit < 1 \<or> 20 < limit)"
    using assms by auto
  obtain res ev3 where cs: "TVDBClient_search rt net client params = (res, ev3)"
    by force
  have run: "TVDBSearchTool_search rt net client query content_type year company limit =
     (case res of
        Inl e \<Rightarrow>
          (Inl e, warn @ [Log INFO (lit ''Searching TVDB with parameters: %s'') [Value (JDict params)]]
                    @ ev3)
      | Inr results \<Rightarrow>
          (case format_search_results rt results of
             Inl e \<Rightarrow>
               (Inl e, warn @ [Log INFO (lit ''Searching TVDB with parameters: %s'')
                                 [Value (JDict params)]]
                    @ ev3 @ [Log DEBUG (lit ''TVDB raw search response: %s'') [Dumps results]])
           | Inr formatted \<Rightarrow>
               (Inr formatted,
                warn @ [Log INFO (lit ''Searching TVDB with parameters: %s'') [Value (JDict params)]]
                    @ ev3 @ [Log DEBUG (lit ''TVDB raw search response: %s'') [Dumps results]]
                    @ [Log DEBUG (lit ''TVDB formatted search output:'' @ [10] @ lit ''%s'')
                         [Text formatted],
                       Log INFO (lit ''TVDB search completed successfully for query: '%s'' @ [39])
                         [Text (strip query)]])))"
    using assms cs
    by (cases content_type; cases year; cases company; cases "the content_type = []";
        cases "the company = []"; cases "str_lower rt (the content_type) \<in> set valid_types")
       (simp_all add: TVDBSearchTool_search_def Let_def split: sum.splits)
  show ?thesis
  proof (cases res)
    case (Inl e)
    with run cs show ?thesis by simp
  next
    case (Inr results)
    with run cs show ?thesis
      by (cases "format_search_results rt results") simp_all
  qed
qed


text \<open>
  Claim C7. On a valid query and limit and a non-empty \<open>content_type\<close>, the search tool
  lowers the content type and puts the lowered value into the request parameters
  under \<open>type\<close>, whether or not it is one of series, movie, person, company; when it
  is not, the only difference is one WARNING record (carrying the content type as
  given) ahead of the other effects. The outcome of the call is the outcome of the
  client's search on these parameters followed by the formatter, so the tool itself
  raises nothing on account of the content type; an authenticated client sends the
  request with these parameters.
\<close>

theorem content_type_passed_through:
  assumes "strip query \<noteq> []" and "1 \<le> limit" and "limit \<le> 20" and "ct \<noteq> []"
    and "params = [(lit ''query'', JStr (strip query)), (lit ''limit'', JInt limit),
                   (lit ''type'', JStr (str_lower rt ct))]
           @ (case year of None \<Rightarrow> [] | Some y \<Rightarrow> [(lit ''year'', JInt y)])
           @ (case company of
                None \<Rightarrow> []
              | Some co \<Rightarrow> if co = [] then [] else [(lit ''company'', JStr (strip co))])"
  shows "(\<exists>rest. TVDBSearchTool_search rt net client query (Some ct) year company limit =
           (and_then (fst (TVDBClient_search rt net client params)) (format_search_results rt),
            (if str_lower rt ct \<in> set valid_types then []
             else [Log WARNING (lit ''Invalid content_type '%s', proceeding anyway.'') [Text ct]])
            @ Log INFO (lit ''Searching TVDB with parameters: %s'') [Value (JDict params)]
              # snd (TVDBClient_search rt net client params) @ rest)
          \<and> (\<forall>e\<in>set rest. \<exists>m a. e = Log DEBUG m a \<or> e = Log INFO m a))
       \<and> map_of params (lit ''type'') = Some (JStr (str_lower rt ct))
       \<and> (truthy rt (token client) \<longrightarrow>
            Sent (Get (TVDB_BASE_URL @ lit ''/search'') params
                    [(lit ''Authorization'', lit ''Bearer '' @ py_str rt (token client)),
                     (lit ''Content-Type'', lit ''application/json'')])
              \<in> set (snd (TVDBSearchTool_search rt net client query (Some ct) year company limit)))"
proof -
  from search_valid [OF assms(1-3), where content_type = "Some ct" and params = params
      and year = year and company = company and rt = rt, OF _ refl, of net client] assms(4,5)
  obtain rest where run: "TVDBSearchTool_search rt net client query (Some ct) year company limit =
           (and_then (fst (TVDBClient_search rt net client params)) (format_search_results rt),
            (if str_lower rt ct \<in> set valid_types then []
             else [Log WARNING (lit ''Invalid content_type '%s', proceeding anyway.'') [Text ct]])
            @ Log INFO (lit ''Searching TVDB with parameters: %s'') [Value (JDict params)]
              # snd (TVDBClient_search rt net client params) @ rest)"
    and rest: "\<forall>e\<in>set rest. \<exists>m a. e = Log DEBUG m a \<or> e = Log INFO m a"
    by auto
  have ty: "map_of params (lit ''type'') = Some (JStr (str_lower rt ct))"
    by (simp add: assms(5))
  have clean: "filter (\<lambda>kv. \<not> is_none (snd kv)) params = params"
    unfolding assms(5) by (cases year; cases company) (simp_all add: is_none_def)
  have sent: "Sent (Get (TVDB_BASE_URL @ lit ''/search'') params
                    [(lit ''Authorization'', lit ''Bearer '' @ py_str rt (token client)),
                     (lit ''Content-Type'', lit ''application/json'')])
              \<in> set (snd (TVDBClient_search rt net client params))"
    if "truthy rt (token client)"
    using that clean
    by (simp add: TVDBClient_search_def headers_def Let_def split: reply.splits option.splits)
  from run rest ty sent show ?thesis
    by auto
qed


text \<open>The definitions a concrete run of the search tool unfolds.\<close>

lemmas tool_defs =
  TVDBSearchTool_search_def TVDBClient_search_def headers_def authenticate_def new_client_def
  is_none_def strip_def isspace_def valid_types_def TVDB_BASE_URL_def Let_def

theorem content_type_passed_through_witness:
  "TVDBSearchTool_search ascii_runtime (\<lambda>req. Body (Some (JDict [(lit ''data'', JList [])])))
      \<lparr>api_key = lit ''k'', pin = lit ''p'', token = JStr (lit ''t0'')\<rparr>
      (lit ''Naruto'') (Some (lit ''Anime'')) None None 10
   = (Inr (lit ''No results found for the search query.''),
      [Log WARNING (lit ''Invalid content_type '%s', proceeding anyway.'') [Text (lit ''Anime'')],
       Log INFO (lit ''Searching TVDB with parameters: %s'')
         [Value (JDict [(lit ''query'', JStr (lit ''Naruto'')), (lit ''limit'', JInt 10),
                        (lit ''type'', JStr (lit ''anime''))])],
       Sent (Get (lit ''https://api4.thetvdb.com/v4/search'')
               [(lit ''query'', JStr (lit ''Naruto'')), (lit ''limit'', JInt 10),
                (lit ''type'', JStr (lit ''anime''))]
               [(lit ''Authorization'', lit ''Bearer t0''),
                (lit ''Content-Type'', lit ''application/json'')]),
       Log DEBUG (lit ''TVDB raw search response: %s'') [Dumps (JDict [(lit ''data'', JList [])])],
       Log DEBUG (lit ''TVDB formatted search output:'' @ [10] @ lit ''%s'')
         [Text (lit ''No results found for the search query.'')],
       Log INFO (lit ''TVDB search completed successfully for query: '%s'' @ [39])
         [Text (lit ''Naruto'')]])"
  using content_type_passed_through [where rt = ascii_runtime and query = "lit ''Naruto''"
      and limit = 10 and ct = "lit ''Anime''" and year = None and company = None
      and net = "\<lambda>req. Body (Some (JDict [(lit ''data'', JList [])]))"
      and client = "\<lparr>api_key = lit ''k'', pin = lit ''p'', token = JStr (lit ''t0'')\<rparr>"
      and params = "[(lit ''query'', JStr (lit ''Naruto'')), (lit ''limit'', JInt 10),
                        (lit ''type'', JStr (lit ''anime''))]"]
  by (simp add: tool_defs run_defs)

section \<open>Optional parameters and the client\<close>

text \<open>
  Claim C10. On a valid query and limit, an empty \<open>content_type\<close> is treated as an
  absent one: the call is the same call, the request parameters have no \<open>type\<close> key
  and no WARNING record is logged. An empty \<open>company\<close> is treated as an absent one
  and the parameters have no \<open>company\<close> key; a non-empty company is put into the
  parameters stripped.
\<close>

theorem empty_content_type_and_company_are_absent:
  assumes "strip query \<noteq> []" and "1 \<le> limit" and "limit \<le> 20"
    and "base = [(lit ''query'', JStr (strip query)), (lit ''limit'', JInt limit)]"
    and "type_part = (case content_type of
                        None \<Rightarrow> []
                      | Some ct \<Rightarrow> if ct = [] then [] else [(lit ''type'', JStr (str_lower rt ct))])"
    and "year_part = (case year of None \<Rightarrow> [] | Some y \<Rightarrow> [(lit ''year'', JInt y)])"
    and "company_part = (case company of
                           None \<Rightarrow> []
                         | Some co \<Rightarrow> if co = [] then [] else [(lit ''company'', JStr (strip co))])"
  shows "TVDBSearchTool_search rt net client query (Some []) year company limit =
           TVDBSearchTool_search rt net client query None year company limit
       \<and> (\<exists>rest. TVDBSearchTool_search rt net client query (Some []) year company limit =
             (and_then (fst (TVDBClient_search rt net client (base @ year_part @ company_part)))
                (format_search_results rt),
              Log INFO (lit ''Searching TVDB with parameters: %s'')
                  [Value (JDict (base @ year_part @ company_part))]
                # snd (TVDBClient_search rt net client (base @ year_part @ company_part)) @ rest)
            \<and> (\<forall>e\<in>set rest. \<exists>m a. e = Log DEBUG m a \<or> e = Log INFO m a))
       \<and> lit ''type'' \<notin> fst ` set (base @ year_part @ company_part)
       \<and> (\<forall>m a. Log WARNING m a
              \<notin> set (snd (TVDBSearchTool_search rt net client query (Some []) year company limit)))
       \<and> TVDBSearchTool_search rt net client query content_type year (Some []) limit =
           TVDBSearchTool_search rt net client query content_type year None limit
       \<and> (\<exists>warn rest. TVDBSearchTool_search rt net client query content_type year (Some []) limit =
             (and_then (fst (TVDBClient_search rt net client (base @ type_part @ year_part)))
                (format_search_results rt),
              warn @ Log INFO (lit ''Searching TVDB with parameters: %s'')
                  [Value (JDict (base @ type_part @ year_part))]
                # snd (TVDBClient_search rt net client (base @ type_part @ year_part)) @ rest))
       \<and> lit ''company'' \<notin> fst ` set (base @ type_part @ year_part)
       \<and> (\<forall>co. co \<noteq> [] \<longrightarrow>
            (\<exists>warn rest. TVDBSearchTool_search rt net client query content_type year (Some co) limit =
               (and_then (fst (TVDBClient_search rt net client
                                 (base @ type_part @ year_part @ [(lit ''company'', JStr (strip co))])))
                  (format_search_results rt),
                warn @ Log INFO (lit ''Searching TVDB with parameters: %s'')
                    [Value (JDict (base @ type_part @ year_part
                                   @ [(lit ''company'', JStr (strip co))]))]
                  # snd (TVDBClient_search rt net client
                           (base @ type_part @ year_part @ [(lit ''company'', JStr (strip co))]))
                  @ rest)))"
proof -
  note valid = assms(1-3)
  let ?pa = "base @ year_part @ company_part"
  from search_valid [OF valid, where content_type = "Some []" and year = year
      and company = company and rt = rt and params = ?pa, OF _ refl, of net client]
  obtain rest where a1: "TVDBSearchTool_search rt net client query (Some []) year company limit =
             (and_then (fst (TVDBClient_search rt net client ?pa)) (format_search_results rt),
              Log INFO (lit ''Searching TVDB with parameters: %s'') [Value (JDict ?pa)]
                # snd (TVDBClient_search rt net client ?pa) @ rest)"
    and a2: "\<forall>e\<in>set rest. \<exists>m a. e = Log DEBUG m a \<or> e = Log INFO m a"
    using assms(4,6,7) by auto
  have same_type: "TVDBSearchTool_search rt net client query (Some []) year company limit =
           TVDBSearchTool_search rt net client query None year company limit"
    by (simp add: TVDBSearchTool_search_def Let_def)
  have same_company: "TVDBSearchTool_search rt net client query content_type year (Some []) limit =
           TVDBSearchTool_search rt net client query content_type year None limit"
    by (simp add: TVDBSearchTool_search_def Let_def)
  have no_type: "lit ''type'' \<notin> fst ` set ?pa"
    unfolding assms(4,6,7) by (cases year; cases company) auto
  have no_company: "lit ''company'' \<notin> fst ` set (base @ type_part @ year_part)"
    unfolding assms(4,5,6) by (cases year; cases content_type) auto
  have no_warning: "Log WARNING m a
      \<notin> set (snd (TVDBSearchTool_search rt net client query (Some []) year company limit))" for m a
  proof
    assume "Log WARNING m a
      \<in> set (snd (TVDBSearchTool_search rt net client query (Some []) year company limit))"
    with a1 have "Log WARNING m a \<in> set (snd (TVDBClient_search rt net client ?pa))
        \<or> Log WARNING m a \<in> set rest"
      by auto
    then show False
    proof
      assume "Log WARNING m a \<in> set (snd (TVDBClient_search rt net client ?pa))"
      from client_search_events [OF this] show False by auto
    next
      assume "Log WARNING m a \<in> set rest"
      with a2 show False by auto
    qed
  qed
  let ?pb = "base @ type_part @ year_part"
  from search_valid [OF valid, where content_type = content_type and year = year
      and company = "Some []" and rt = rt and params = ?pb, OF _ refl, of net client]
  have b1: "\<exists>warn rest. TVDBSearchTool_search rt net client query content_type year (Some []) limit =
             (and_then (fst (TVDBClient_search rt net client ?pb)) (format_search_results rt),
              warn @ Log INFO (lit ''Searching TVDB with parameters: %s'') [Value (JDict ?pb)]
                # snd (TVDBClient_search rt net client ?pb) @ rest)"
    using assms(4,5,6) by auto
  have b2: "\<exists>warn rest. TVDBSearchTool_search rt net client query content_type year (Some co) limit =
               (and_then (fst (TVDBClient_search rt net client
                                 (?pb @ [(lit ''company'', JStr (strip co))])))
                  (format_search_results rt),
                warn @ Log INFO (lit ''Searching TVDB with parameters: %s'')
                    [Value (JDict (?pb @ [(lit ''company'', JStr (strip co))]))]
                  # snd (TVDBClient_search rt net client (?pb @ [(lit ''company'', JStr (strip co))]))
                  @ rest)"
    if "co \<noteq> []" for co
    using search_valid [OF valid, where content_type = content_type and year = year
      and company = "Some co" and rt = rt and params = "?pb @ [(lit ''company'', JStr (strip co))]",
      OF _ refl, of net client] that assms(4,5,6)
    by auto
  from a1 a2 same_type same_company no_type no_company no_warning b1 b2 show ?thesis
    by (simp add: append_assoc)
qed


theorem empty_content_type_and_company_are_absent_witness:
  "TVDBSearchTool_search ascii_runtime (\<lambda>req. Body (Some (JDict [(lit ''data'', JList [])])))
      \<lparr>api_key = lit ''k'', pin = lit ''p'', token = JStr (lit ''t0'')\<rparr>
      (lit '' Dune '') (Some []) (Some 2021) (Some []) 5
   = (Inr (lit ''No results found for the search query.''),
      [Log INFO (lit ''Searching TVDB with parameters: %s'')
         [Value (JDict [(lit ''query'', JStr (lit ''Dune'')), (lit ''limit'', JInt 5),
                        (lit ''year'', JInt 2021)])],
       Sent (Get (lit ''https://api4.thetvdb.com/v4/search'')
               [(lit ''query'', JStr (lit ''Dune'')), (lit ''limit'', JInt 5),
                (lit ''year'', JInt 2021)]
               [(lit ''Authorization'', lit ''Bearer t0''),
                (lit ''Content-Type'', lit ''application/json'')]),
       Log DEBUG (lit ''TVDB raw search response: %s'') [Dumps (JDict [(lit ''data'', JList [])])],
       Log DEBUG (lit ''TVDB formatted search output:'' @ [10] @ lit ''%s'')
         [Text (lit ''No results found for the search query.'')],
       Log INFO (lit ''TVDB search completed successfully for query: '%s'' @ [39])
         [Text (lit ''Dune'')]])"
  using empty_content_type_and_company_are_absent [where rt = ascii_runtime
      and query = "lit '' Dune ''" and limit = 5 and content_type = "Some []"
      and year = "Some 2021" and company = "Some []"
      and net = "\<lambda>req. Body (Some (JDict [(lit ''data'', JList [])]))"
      and client = "\<lparr>api_key = lit ''k'', pin = lit ''p'', token = JStr (lit ''t0'')\<rparr>"
      and base = "[(lit ''query'', JStr (lit ''Dune'')), (lit ''limit'', JInt 5)]"
      and type_part = "[]" and year_part = "[(lit ''year'', JInt 2021)]" and company_part = "[]"]
  by (simp add: tool_defs run_defs)

text \<open>
  Claim C8. A client whose token is not set (as on construction, or after an
  \<open>authenticate\<close> that raised, which leaves the client as it was) raises
  \<open>TVDBAuthenticationError\<close> from \<open>search\<close> without sending a request. When
  \<open>authenticate\<close> returns, the client holds the token of the login response, and its
  \<open>search\<close> sends the GET request with that token as bearer.
\<close>

theorem search_requires_authentication:
  "(\<not> truthy rt (token c) \<longrightarrow>
      TVDBClient_search rt net c params =
        (Inl (TVDBAuthenticationError
                (lit ''Client is not authenticated. Call authenticate() first.'')), []))
   \<and> \<not> truthy rt (token (new_client k p))
   \<and> (\<forall>e c' evs. authenticate rt login c = (Inl e, c', evs) \<longrightarrow> c' = c)
   \<and> (\<forall>c' evs. authenticate rt login c = (Inr (), c', evs) \<longrightarrow>
         truthy rt (token c') \<and> c' = c\<lparr>token := token c'\<rparr>
         \<and> (\<exists>body inner.
               login (Post (TVDB_BASE_URL @ lit ''/login'')
                        [(lit ''apikey'', JStr (api_key c)), (lit ''pin'', JStr (pin c))]
                        [(lit ''Content-Type'', lit ''application/json'')])
                 = Body (Some (JDict body))
               \<and> map_of body (lit ''data'') = Some (JDict inner)
               \<and> map_of inner (lit ''token'') = Some (token c'))
         \<and> (\<exists>rest. snd (TVDBClient_search rt net c' params) =
               Sent (Get (TVDB_BASE_URL @ lit ''/search'')
                       (filter (\<lambda>kv. \<not> is_none (snd kv)) params)
                       [(lit ''Authorization'', lit ''Bearer '' @ py_str rt (token c')),
                        (lit ''Content-Type'', lit ''application/json'')]) # rest))"
proof -
  have unauth: "TVDBClient_search rt net c params =
        (Inl (TVDBAuthenticationError
                (lit ''Client is not authenticated. Call authenticate() first.'')), [])"
    if "\<not> truthy rt (token c)"
    using that by (simp add: TVDBClient_search_def headers_def)
  have fresh: "\<not> truthy rt (token (new_client k p))"
    by (simp add: new_client_def)
  have failed: "c' = c" if "authenticate rt login c = (Inl e, c', evs)" for e c' evs
    using that
    by (auto simp: authenticate_def Let_def split: reply.splits option.splits sum.splits if_splits)
  have stored: "truthy rt (token c') \<and> c' = c\<lparr>token := token c'\<rparr>
         \<and> (\<exists>body inner.
               login (Post (TVDB_BASE_URL @ lit ''/login'')
                        [(lit ''apikey'', JStr (api_key c)), (lit ''pin'', JStr (pin c))]
                        [(lit ''Content-Type'', lit ''application/json'')])
                 = Body (Some (JDict body))
               \<and> map_of body (lit ''data'') = Some (JDict inner)
               \<and> map_of inner (lit ''token'') = Some (token c'))"
    if "authenticate rt login c = (Inr (), c', evs)" for c' evs
    using that
    by (auto simp: authenticate_def Let_def py_get_def and_then_def
             split: reply.splits option.splits sum.splits if_splits json.splits)
  have sends: "\<exists>rest. snd (TVDBClient_search rt net c' params) =
               Sent (Get (TVDB_BASE_URL @ lit ''/search'')
                       (filter (\<lambda>kv. \<not> is_none (snd kv)) params)
                       [(lit ''Authorization'', lit ''Bearer '' @ py_str rt (token c')),
                        (lit ''Content-Type'', lit ''application/json'')]) # rest"
    if "truthy rt (token c')" for c'
    using that
    by (simp add: TVDBClient_search_def headers_def Let_def split: reply.splits option.splits)
  from unauth fresh failed stored sends show ?thesis
    by blast
qed


theorem search_requires_authentication_witness:
  "TVDBClient_search ascii_runtime
      (\<lambda>req. case req of
         Post url payload hs \<Rightarrow> Body (Some (JDict [(lit ''data'', JDict [(lit ''token'', JStr (lit ''abc''))])]))
       | Get url ps hs \<Rightarrow> Body (Some (JDict [(lit ''data'', JList [])])))
      (new_client (lit ''k'') (lit ''1234''))
      [(lit ''query'', JStr (lit ''Dune'')), (lit ''year'', JNull)]
    = (Inl (TVDBAuthenticationError
              (lit ''Client is not authenticated. Call authenticate() first.'')), [])
   \<and> authenticate ascii_runtime
      (\<lambda>req. case req of
         Post url payload hs \<Rightarrow> Body (Some (JDict [(lit ''data'', JDict [(lit ''token'', JStr (lit ''abc''))])]))
       | Get url ps hs \<Rightarrow> Body (Some (JDict [(lit ''data'', JList [])])))
      (new_client (lit ''k'') (lit ''1234''))
    = (Inr (), \<lparr>api_key = lit ''k'', pin = lit ''1234'', token = JStr (lit ''abc'')\<rparr>,
       [Sent (Post (lit ''https://api4.thetvdb.com/v4/login'')
                [(lit ''apikey'', JStr (lit ''k'')), (lit ''pin'', JStr (lit ''1234''))]
                [(lit ''Content-Type'', lit ''application/json'')]),
        Log INFO (lit ''TVDB authentication successful'') []])
   \<and> TVDBClient_search ascii_runtime
      (\<lambda>req. case req of
         Post url payload hs \<Rightarrow> Body (Some (JDict [(lit ''data'', JDict [(lit ''token'', JStr (lit ''abc''))])]))
       | Get url ps hs \<Rightarrow> Body (Some (JDict [(lit ''data'', JList [])])))
      \<lparr>api_key = lit ''k'', pin = lit ''1234'', token = JStr (lit ''abc'')\<rparr>
      [(lit ''query'', JStr (lit ''Dune'')), (lit ''year'', JNull)]
    = (Inr (JDict [(lit ''data'', JList [])]),
       [Sent (Get (lit ''https://api4.thetvdb.com/v4/search'')
                [(lit ''query'', JStr (lit ''Dune''))]
                [(lit ''Authorization'', lit ''Bearer abc''),
                 (lit ''Content-Type'', lit ''application/json'')])])"
  using search_requires_authentication [where rt = ascii_runtime
      and c = "new_client (lit ''k'') (lit ''1234'')" and k = "lit ''k''" and p = "lit ''1234''"
      and params = "[(lit ''query'', JStr (lit ''Dune'')), (lit ''year'', JNull)]"
      and net = "\<lambda>req. case req of
         Post url payload hs \<Rightarrow> Body (Some (JDict [(lit ''data'', JDict [(lit ''token'', JStr (lit ''abc''))])]))
       | Get url ps hs \<Rightarrow> Body (Some (JDict [(lit ''data'', JList [])]))"
      and login = "\<lambda>req. case req of
         Post url payload hs \<Rightarrow> Body (Some (JDict [(lit ''data'', JDict [(lit ''token'', JStr (lit ''abc''))])]))
       | Get url ps hs \<Rightarrow> Body (Some (JDict [(lit ''data'', JList [])]))"]
  by (simp add: tool_defs run_defs)

section \<open>The Wikipedia summary tool\<close>

text \<open>
  Claim C9. When the page of a title is missing or has an empty summary,
  \<open>get_series_movies_summary\<close> returns (and does not raise) the JSON text of the
  object with \<open>title\<close>, the title as given, and \<open>summary\<close>,
  \<open>No Wikipedia summary found for '<title>'.\<close> The call raises exactly when the lookup
  itself raised an exception that is not a \<open>LookupError\<close>: it then raises
  \<open>RuntimeError\<close> with the text of the cause (and logs the failure) when the cause
  is an \<open>Exception\<close>, and lets any other cause pass. A page with a summary gives the
  JSON text of its title and summary. An exception of the library that is itself a
  \<open>LookupError\<close> (a \<open>KeyError\<close>, an \<open>IndexError\<close>) takes the same path as a missing
  page.
\<close>

theorem missing_summary_is_data:
  "((wiki (strip title) = Page_missing \<or> (\<exists>t. wiki (strip title) = Page t [])) \<longrightarrow>
      get_series_movies_summary wiki title =
        (Inr (json_dumps
                [(lit ''title'', title),
                 (lit ''summary'',
                  lit ''No Wikipedia summary found for '' @ [39] @ title @ [39] @ lit ''.'')]),
         [Log INFO (lit ''No Wikipedia summary found for title=%r'') [Text title]]))
   \<and> json_dumps [(lit ''title'', t), (lit ''summary'', s)] =
        lit ''{'' @ json_string (lit ''title'') @ lit '': '' @ json_string t @ lit '', ''
        @ json_string (lit ''summary'') @ lit '': '' @ json_string s @ lit ''}''
   \<and> (\<forall>e. fst (get_series_movies_summary wiki title) = Inl e \<longrightarrow>
         (\<exists>c m. wiki (strip title) = Page_raised c m \<and> c \<noteq> Lookup_error
            \<and> e = (if c = Base_exception then External c m
                     else RuntimeError (lit ''Wikipedia summary retrieval failed: '' @ m))))
   \<and> (\<forall>c m. wiki (strip title) = Page_raised c m \<and> c \<noteq> Lookup_error \<longrightarrow>
         get_series_movies_summary wiki title =
           (if c = Base_exception then (Inl (External c m), [])
            else (Inl (RuntimeError (lit ''Wikipedia summary retrieval failed: '' @ m)),
                  [Log ERROR (lit ''Failed to retrieve Wikipedia summary for title=%r'')
                     [Text title]])))
   \<and> (\<forall>page_title summary. wiki (strip title) = Page page_title summary \<and> summary \<noteq> [] \<longrightarrow>
         get_series_movies_summary wiki title =
           (Inr (json_dumps [(lit ''title'', page_title), (lit ''summary'', summary)]), []))
   \<and> (\<forall>m. wiki (strip title) = Page_raised Lookup_error m \<longrightarrow>
         get_series_movies_summary wiki title =
           (Inr (json_dumps
                   [(lit ''title'', title),
                    (lit ''summary'',
                     lit ''No Wikipedia summary found for '' @ [39] @ title @ [39] @ lit ''.'')]),
            [Log INFO (lit ''No Wikipedia summary found for title=%r'') [Text title]]))"
proof -
  have a: "get_series_movies_summary wiki title =
        (Inr (json_dumps
                [(lit ''title'', title),
                 (lit ''summary'',
                  lit ''No Wikipedia summary found for '' @ [39] @ title @ [39] @ lit ''.'')]),
         [Log INFO (lit ''No Wikipedia summary found for title=%r'') [Text title]])"
    if "wiki (strip title) = Page_missing \<or> (\<exists>t. wiki (strip title) = Page t [])"
    using that
    by (auto simp: get_series_movies_summary_def fetch_wikipedia_summary_def is_lookup_error_def
          not_found_message_def)
  have b: "json_dumps [(lit ''title'', t), (lit ''summary'', s)] =
        lit ''{'' @ json_string (lit ''title'') @ lit '': '' @ json_string t @ lit '', ''
        @ json_string (lit ''summary'') @ lit '': '' @ json_string s @ lit ''}''"
    by (simp add: json_dumps_def)
  have c: "\<exists>c m. wiki (strip title) = Page_raised c m \<and> c \<noteq> Lookup_error
            \<and> e = (if c = Base_exception then External c m
                     else RuntimeError (lit ''Wikipedia summary retrieval failed: '' @ m))"
    if "fst (get_series_movies_summary wiki title) = Inl e" for e
  proof (cases "wiki (strip title)")
    case Page_missing
    with that show ?thesis
      by (simp add: get_series_movies_summary_def fetch_wikipedia_summary_def is_lookup_error_def)
  next
    case (Page t s)
    with that show ?thesis
      by (cases "s = []")
         (simp_all add: get_series_movies_summary_def fetch_wikipedia_summary_def
            is_lookup_error_def)
  next
    case (Page_raised c m)
    with that show ?thesis
      by (cases c)
         (simp_all add: get_series_movies_summary_def fetch_wikipedia_summary_def
            is_lookup_error_def is_exception_def exc_text_def)
  qed
  have d: "get_series_movies_summary wiki title =
           (if c = Base_exception then (Inl (External c m), [])
            else (Inl (RuntimeError (lit ''Wikipedia summary retrieval failed: '' @ m)),
                  [Log ERROR (lit ''Failed to retrieve Wikipedia summary for title=%r'')
                     [Text title]]))"
    if "wiki (strip title) = Page_raised c m \<and> c \<noteq> Lookup_error" for c m
    using that
    by (cases c)
       (simp_all add: get_series_movies_summary_def fetch_wikipedia_summary_def
          is_lookup_error_def is_exception_def exc_text_def)
  have e: "get_series_movies_summary wiki title =
           (Inr (json_dumps [(lit ''title'', page_title), (lit ''summary'', summary)]), [])"
    if "wiki (strip title) = Page page_title summary \<and> summary \<noteq> []" for page_title summary
    using that by (simp add: get_series_movies_summary_def fetch_wikipedia_summary_def)
  have f: "get_series_movies_summary wiki title =
           (Inr (json_dumps
                   [(lit ''title'', title),
                    (lit ''summary'',
                     lit ''No Wikipedia summary found for '' @ [39] @ title @ [39] @ lit ''.'')]),
            [Log INFO (lit ''No Wikipedia summary found for title=%r'') [Text title]])"
    if "wiki (strip title) = Page_raised Lookup_error m" for m
    using that
    by (simp add: get_series_movies_summary_def fetch_wikipedia_summary_def is_lookup_error_def
          not_found_message_def)
  from a b c d e f show ?thesis by blast
qed



theorem missing_summary_is_data_witness:
  "get_series_movies_summary
     (\<lambda>t. if t = lit ''Dune'' then Page (lit ''Dune (novel)'') []
          else if t = lit ''Solaris'' then Page_raised Other_exception (lit ''connection reset'')
          else if t = lit ''Alien'' then Page (lit ''Alien (film)'') (lit ''A 1979 film.'')
          else Page_missing)
     (lit '' Dune'')
   = (Inr (lit ''{'' @ [34] @ lit ''title'' @ [34] @ lit '': '' @ [34] @ lit '' Dune'' @ [34]
           @ lit '', '' @ [34] @ lit ''summary'' @ [34] @ lit '': '' @ [34]
           @ lit ''No Wikipedia summary found for ' Dune'' @ [39] @ lit ''.'' @ [34] @ lit ''}''),
      [Log INFO (lit ''No Wikipedia summary found for title=%r'') [Text (lit '' Dune'')]])
   \<and> get_series_movies_summary
     (\<lambda>t. if t = lit ''Dune'' then Page (lit ''Dune (novel)'') []
          else if t = lit ''Solaris'' then Page_raised Other_exception (lit ''connection reset'')
          else if t = lit ''Alien'' then Page (lit ''Alien (film)'') (lit ''A 1979 film.'')
          else Page_missing)
     (lit ''Solaris'')
   = (Inl (RuntimeError (lit ''Wikipedia summary retrieval failed: connection reset'')),
      [Log ERROR (lit ''Failed to retrieve Wikipedia summary for title=%r'')
         [Text (lit ''Solaris'')]])
   \<and> get_series_movies_summary
     (\<lambda>t. if t = lit ''Dune'' then Page (lit ''Dune (novel)'') []
          else if t = lit ''Solaris'' then Page_raised Other_exception (lit ''connection reset'')
          else if t = lit ''Alien'' then Page (lit ''Alien (film)'') (lit ''A 1979 film.'')
          else Page_missing)
     (lit ''Alien'')
   = (Inr (lit ''{'' @ [34] @ lit ''title'' @ [34] @ lit '': '' @ [34] @ lit ''Alien (film)''
           @ [34] @ lit '', '' @ [34] @ lit ''summary'' @ [34] @ lit '': '' @ [34]
           @ lit ''A 1979 film.'' @ [34] @ lit ''}''), [])"
proof (intro conjI)
  let ?wiki = "(\<lambda>t. if t = lit ''Dune'' then Page (lit ''Dune (novel)'') []
          else if t = lit ''Solaris'' then Page_raised Other_exception (lit ''connection reset'')
          else if t = lit ''Alien'' then Page (lit ''Alien (film)'') (lit ''A 1979 film.'')
          else Page_missing)"
  have dune: "?wiki (strip (lit '' Dune'')) = Page_missing
              \<or> (\<exists>t. ?wiki (strip (lit '' Dune'')) = Page t [])"
    by (simp add: strip_def isspace_def lit_def)
  from missing_summary_is_data [where wiki = ?wiki and title = "lit '' Dune''",
      THEN conjunct1, rule_format, OF dune]
  show "get_series_movies_summary ?wiki (lit '' Dune'')
   = (Inr (lit ''{'' @ [34] @ lit ''title'' @ [34] @ lit '': '' @ [34] @ lit '' Dune'' @ [34]
           @ lit '', '' @ [34] @ lit ''summary'' @ [34] @ lit '': '' @ [34]
           @ lit ''No Wikipedia summary found for ' Dune'' @ [39] @ lit ''.'' @ [34] @ lit ''}''),
      [Log INFO (lit ''No Wikipedia summary found for title=%r'') [Text (lit '' Dune'')]])"
    by (simp add: json_dumps_def json_string_def json_escape_def lit_def)
  have solaris: "?wiki (strip (lit ''Solaris'')) = Page_raised Other_exception (lit ''connection reset'')
                 \<and> Other_exception \<noteq> Lookup_error"
    by (simp add: strip_def isspace_def lit_def)
  from missing_summary_is_data [where wiki = ?wiki and title = "lit ''Solaris''",
      THEN conjunct2, THEN conjunct2, THEN conjunct2, THEN conjunct1, rule_format, OF solaris]
  show "get_series_movies_summary ?wiki (lit ''Solaris'')
   = (Inl (RuntimeError (lit ''Wikipedia summary retrieval failed: connection reset'')),
      [Log ERROR (lit ''Failed to retrieve Wikipedia summary for title=%r'')
         [Text (lit ''Solaris'')]])"
    by (simp add: lit_def)
  have alien: "?wiki (strip (lit ''Alien'')) = Page (lit ''Alien (film)'') (lit ''A 1979 film.'')
               \<and> lit ''A 1979 film.'' \<noteq> []"
    by (simp add: strip_def isspace_def lit_def)
  from missing_summary_is_data [where wiki = ?wiki and title = "lit ''Alien''",
      THEN conjunct2, THEN conjunct2, THEN conjunct2, THEN conjunct2, THEN conjunct1,
      rule_format, OF alien]
  show "get_series_movies_summary ?wiki (lit ''Alien'')
   = (Inr (lit ''{'' @ [34] @ lit ''title'' @ [34] @ lit '': '' @ [34] @ lit ''Alien (film)''
           @ [34] @ lit '', '' @ [34] @ lit ''summary'' @ [34] @ lit '': '' @ [34]
           @ lit ''A 1979 film.'' @ [34] @ lit ''}''), [])"
    by (simp add: json_dumps_def json_string_def json_escape_def lit_def)
qed

section \<open>Resolution of the API key\<close>

lemma resolve_loop_find:
  "resolve_loop env os_environ keys =
     (case find (\<lambda>k. candidate env os_environ k \<noteq> []) keys of
        None \<Rightarrow>
          (Inl (MissingApiKeyError (lit ''Set GEMINI_API_KEY or GOOGLE_API_KEY before running.'')), [])
      | Some k \<Rightarrow>
          (Inr (candidate env os_environ k),
           (if k = lit ''GEMENI_API_KEY''
            then [Log WARNING (lit ''Environment variable 'GEMENI_API_KEY' is a misspelling. Please migrate to 'GEMINI_API_KEY'.'') []]
            else [])
           @ [Log DEBUG (lit ''Using API key from %s'') [Text k]]))"
  by (induction keys) (simp_all add: Let_def)


text \<open>
  Claim C3. \<open>_resolve_api_key\<close> returns the value of the first name among
  \<open>GEMINI_API_KEY\<close>, \<open>GOOGLE_API_KEY\<close>, \<open>GEMENI_API_KEY\<close> (in this order) that yields
  a non-empty value, where the value a name yields is the one of the explicit mapping
  when that is non-empty and the one of the process environment otherwise. When only
  the misspelled \<open>GEMENI_API_KEY\<close> yields a value, that value is returned and a
  WARNING record is logged. When no name yields a value, \<open>MissingApiKeyError\<close> is
  raised.
\<close>

theorem api_key_resolution:
  "resolve_api_key env os_environ =
     (case find (\<lambda>k. candidate env os_environ k \<noteq> [])
             [lit ''GEMINI_API_KEY'', lit ''GOOGLE_API_KEY'', lit ''GEMENI_API_KEY''] of
        None \<Rightarrow>
          (Inl (MissingApiKeyError (lit ''Set GEMINI_API_KEY or GOOGLE_API_KEY before running.'')), [])
      | Some k \<Rightarrow>
          (Inr (candidate env os_environ k),
           (if k = lit ''GEMENI_API_KEY''
            then [Log WARNING (lit ''Environment variable 'GEMENI_API_KEY' is a misspelling. Please migrate to 'GEMINI_API_KEY'.'') []]
            else [])
           @ [Log DEBUG (lit ''Using API key from %s'') [Text k]]))
   \<and> candidate env os_environ name =
       (case env name of
          Some x \<Rightarrow> if x \<noteq> [] then x
                    else (case os_environ name of Some y \<Rightarrow> y | None \<Rightarrow> [])
        | None \<Rightarrow> (case os_environ name of Some y \<Rightarrow> y | None \<Rightarrow> []))
   \<and> (candidate env os_environ (lit ''GEMINI_API_KEY'') = []
        \<and> candidate env os_environ (lit ''GOOGLE_API_KEY'') = []
        \<and> candidate env os_environ (lit ''GEMENI_API_KEY'') \<noteq> [] \<longrightarrow>
        resolve_api_key env os_environ =
          (Inr (candidate env os_environ (lit ''GEMENI_API_KEY'')),
           [Log WARNING (lit ''Environment variable 'GEMENI_API_KEY' is a misspelling. Please migrate to 'GEMINI_API_KEY'.'') [],
            Log DEBUG (lit ''Using API key from %s'') [Text (lit ''GEMENI_API_KEY'')]]))
   \<and> (candidate env os_environ (lit ''GEMINI_API_KEY'') = []
        \<and> candidate env os_environ (lit ''GOOGLE_API_KEY'') = []
        \<and> candidate env os_environ (lit ''GEMENI_API_KEY'') = [] \<longrightarrow>
        resolve_api_key env os_environ =
          (Inl (MissingApiKeyError (lit ''Set GEMINI_API_KEY or GOOGLE_API_KEY before running.'')), []))"
proof -
  have a: "resolve_api_key env os_environ =
     (case find (\<lambda>k. candidate env os_environ k \<noteq> [])
             [lit ''GEMINI_API_KEY'', lit ''GOOGLE_API_KEY'', lit ''GEMENI_API_KEY''] of
        None \<Rightarrow>
          (Inl (MissingApiKeyError (lit ''Set GEMINI_API_KEY or GOOGLE_API_KEY before running.'')), [])
      | Some k \<Rightarrow>
          (Inr (candidate env os_environ k),
           (if k = lit ''GEMENI_API_KEY''
            then [Log WARNING (lit ''Environment variable 'GEMENI_API_KEY' is a misspelling. Please migrate to 'GEMINI_API_KEY'.'') []]
            else [])
           @ [Log DEBUG (lit ''Using API key from %s'') [Text k]]))"
    unfolding resolve_api_key_def API_KEY_ENV_VARS_def by (rule resolve_loop_find)
  have b: "candidate env os_environ name =
       (case env name of
          Some x \<Rightarrow> if x \<noteq> [] then x
                    else (case os_environ name of Some y \<Rightarrow> y | None \<Rightarrow> [])
        | None \<Rightarrow> (case os_environ name of Some y \<Rightarrow> y | None \<Rightarrow> []))"
    by (simp add: candidate_def getenv_def split: option.splits)
  show ?thesis
    unfolding a using b by simp
qed

theorem api_key_resolution_witness:
  "resolve_api_key (map_of [(lit ''GEMENI_API_KEY'', lit ''secret'')]) Map.empty =
     (Inr (lit ''secret''),
      [Log WARNING (lit ''Environment variable 'GEMENI_API_KEY' is a misspelling. Please migrate to 'GEMINI_API_KEY'.'') [],
       Log DEBUG (lit ''Using API key from %s'') [Text (lit ''GEMENI_API_KEY'')]])
   \<and> resolve_api_key Map.empty Map.empty =
     (Inl (MissingApiKeyError (lit ''Set GEMINI_API_KEY or GOOGLE_API_KEY before running.'')), [])
   \<and> resolve_api_key (map_of [(lit ''GEMINI_API_KEY'', []), (lit ''GOOGLE_API_KEY'', lit ''g1'')])
         (map_of [(lit ''GEMINI_API_KEY'', lit ''e0''), (lit ''GOOGLE_API_KEY'', lit ''e1'')]) =
     (Inr (lit ''e0''), [Log DEBUG (lit ''Using API key from %s'') [Text (lit ''GEMINI_API_KEY'')]])
   \<and> resolve_api_key (map_of [(lit ''GOOGLE_API_KEY'', lit ''g1'')])
         (map_of [(lit ''GOOGLE_API_KEY'', lit ''e1''), (lit ''GEMENI_API_KEY'', lit ''e2'')]) =
     (Inr (lit ''g1''), [Log DEBUG (lit ''Using API key from %s'') [Text (lit ''GOOGLE_API_KEY'')]])"
  using api_key_resolution [where env = "map_of [(lit ''GEMENI_API_KEY'', lit ''secret'')]"
          and os_environ = Map.empty and name = "lit ''GEMENI_API_KEY''"]
        api_key_resolution [where env = Map.empty and os_environ = Map.empty
          and name = "lit ''GEMENI_API_KEY''"]
  by (simp add: resolve_api_key_def API_KEY_ENV_VARS_def candidate_def getenv_def Let_def lit_def)

section \<open>The conversation runner\<close>

lemma history_or_empty_frame:
  assumes "history_or_empty h hist = (r, h')"
    and "\<forall>r0. hist = Some r0 \<longrightarrow> r0 < length h"
  shows "r < length h' \<and> h' ! r = (case hist of None \<Rightarrow> [] | Some r0 \<Rightarrow> h ! r0)
         \<and> length h \<le> length h' \<and> (\<forall>a<length h. h' ! a = h ! a)
         \<and> (\<forall>r0. hist = Some r0 \<and> h ! r0 \<noteq> [] \<longrightarrow> r = r0)"
  using assms
  by (auto simp: history_or_empty_def nth_append split: option.splits if_splits)

text \<open>
  Claim C2. When the awaited run ends with \<open>asyncio.TimeoutError\<close>,
  \<open>run_movies_buddy_agent\<close> returns the pair of a list whose contents are the prior
  history as the caller passed it (empty when none was passed), without the appended
  user message, and the text \<open>Request timed out.\<close>; it is the caller's own list when
  that is non-empty. No list that existed before the call has changed, the caller's
  included, whatever the runtime did to the working list.
\<close>

theorem timeout_returns_prior_history:
  assumes created: "create_movies_buddy_agent rt w (environ w) = (Inr agent, evs)"
    and allocated: "\<forall>r0. conversation_history = Some r0 \<longrightarrow> r0 < length h"
    and prior: "prior = (case conversation_history of None \<Rightarrow> [] | Some r0 \<Rightarrow> h ! r0)"
    and bound: "bound = (case timeout_s of
                           Some t \<Rightarrow> if float_bool rt t then Some t else None
                         | None \<Rightarrow> None)"
    and timeout: "fst (runner w agent bound
                    (prior @ [JDict [(lit ''role'', JStr (lit ''user'')),
                                     (lit ''content'', JStr user_input)]]))
                  = Run_raised Timeout_error m"
  shows "\<exists>r h'. run_movies_buddy_agent rt w h user_input conversation_history timeout_s =
           (Inr (r, lit ''Request timed out.''), h',
            evs @ [Log WARNING (lit ''Movies Buddy agent run timed out after %s seconds'')
                     [Value (case timeout_s of Some t \<Rightarrow> JFloat t | None \<Rightarrow> JNull)]])
         \<and> r < length h' \<and> h' ! r = prior
         \<and> length h \<le> length h' \<and> (\<forall>a<length h. h' ! a = h ! a)
         \<and> (\<forall>r0. conversation_history = Some r0 \<and> h ! r0 \<noteq> [] \<longrightarrow> r = r0)"
proof -
  obtain src h0 where first: "history_or_empty h conversation_history = (src, h0)"
    by force
  from history_or_empty_frame [OF first allocated] prior
  have src: "src < length h0" and src_prior: "h0 ! src = prior"
    and grow0: "length h \<le> length h0" and keep0: "\<forall>a<length h. h0 ! a = h ! a"
    by auto
  define user where "user = JDict [(lit ''role'', JStr (lit ''user'')), (lit ''content'', JStr user_input)]"
  define h2 where "h2 = (h0 @ [h0 ! src])[length h0 := (h0 @ [h0 ! src]) ! length h0 @ [user]]"
  have work: "h2 ! length h0 = prior @ [user]"
    by (simp add: h2_def src_prior)
  obtain outcome after where ran: "runner w agent bound (h2 ! length h0) = (outcome, after)"
    by force
  with timeout work have outcome: "outcome = Run_raised Timeout_error m"
    by (simp add: user_def)
  define h3 where "h3 = h2[length h0 := after]"
  have len3: "length h3 = Suc (length h0)"
    by (simp add: h3_def h2_def)
  have keep3: "\<forall>a<length h0. h3 ! a = h0 ! a"
    by (simp add: h3_def h2_def nth_append)
  obtain r h4 where last: "history_or_empty h3 conversation_history = (r, h4)"
    by force
  have allocated3: "\<forall>r0. conversation_history = Some r0 \<longrightarrow> r0 < length h3"
    using allocated grow0 len3 by auto
  from history_or_empty_frame [OF last allocated3]
  have r: "r < length h4" and r_val: "h4 ! r = (case conversation_history of None \<Rightarrow> [] | Some r0 \<Rightarrow> h3 ! r0)"
    and grow4: "length h3 \<le> length h4" and keep4: "\<forall>a<length h3. h4 ! a = h3 ! a"
    and same: "\<forall>r0. conversation_history = Some r0 \<and> h3 ! r0 \<noteq> [] \<longrightarrow> r = r0"
    by auto
  have old: "h3 ! a = h ! a" if "a < length h" for a
    using that grow0 keep0 keep3 by auto
  have "h4 ! r = prior"
    using r_val prior allocated old by (auto split: option.splits)
  moreover have "length h \<le> length h4"
    using grow0 len3 grow4 by simp
  moreover have "\<forall>a<length h. h4 ! a = h ! a"
    using old keep4 grow0 len3 by auto
  moreover have "\<forall>r0. conversation_history = Some r0 \<and> h ! r0 \<noteq> [] \<longrightarrow> r = r0"
    using same allocated old by auto
  moreover have "run_movies_buddy_agent rt w h user_input conversation_history timeout_s =
           (Inr (r, lit ''Request timed out.''), h4,
            evs @ [Log WARNING (lit ''Movies Buddy agent run timed out after %s seconds'')
                     [Value (case timeout_s of Some t \<Rightarrow> JFloat t | None \<Rightarrow> JNull)]])"
    using created first ran [unfolded h2_def user_def] last [unfolded h3_def h2_def user_def]
      outcome bound
    by (simp add: run_movies_buddy_agent_def Let_def)
  ultimately show ?thesis
    using r by blast
qed


theorem timeout_returns_prior_history_witness:
  "\<forall>rt t. run_movies_buddy_agent rt
        \<lparr>environ = map_of [(lit ''GEMINI_API_KEY'', lit ''k'')],
         GEMINI_BASE_URL = lit ''https://generativelanguage.googleapis.com/v1beta/openai/'',
         script_is_file = True,
         runner = (\<lambda>agent bound msgs. (Run_raised Timeout_error [], msgs @ [JNull]))\<rparr>
        [[JDict [(lit ''role'', JStr (lit ''user'')), (lit ''content'', JStr (lit ''hi''))]]]
        (lit ''Dune?'') (Some 0) (Some t)
   = (Inr (0, lit ''Request timed out.''),
      [[JDict [(lit ''role'', JStr (lit ''user'')), (lit ''content'', JStr (lit ''hi''))]],
       [JDict [(lit ''role'', JStr (lit ''user'')), (lit ''content'', JStr (lit ''hi''))],
        JDict [(lit ''role'', JStr (lit ''user'')), (lit ''content'', JStr (lit ''Dune?''))],
        JNull]],
      [Log DEBUG (lit ''Using API key from %s'') [Text (lit ''GEMINI_API_KEY'')],
       Log INFO (lit ''Created Movies Buddy agent with model %s'') [Text (lit ''gemini-2.5-pro'')],
       Log WARNING (lit ''Movies Buddy agent run timed out after %s seconds'') [Value (JFloat t)]])"
proof (intro allI)
  fix rt :: pyrt and t :: pyfloat
  show "run_movies_buddy_agent rt
        \<lparr>environ = map_of [(lit ''GEMINI_API_KEY'', lit ''k'')],
         GEMINI_BASE_URL = lit ''https://generativelanguage.googleapis.com/v1beta/openai/'',
         script_is_file = True,
         runner = (\<lambda>agent bound msgs. (Run_raised Timeout_error [], msgs @ [JNull]))\<rparr>
        [[JDict [(lit ''role'', JStr (lit ''user'')), (lit ''content'', JStr (lit ''hi''))]]]
        (lit ''Dune?'') (Some 0) (Some t)
   = (Inr (0, lit ''Request timed out.''),
      [[JDict [(lit ''role'', JStr (lit ''user'')), (lit ''content'', JStr (lit ''hi''))]],
       [JDict [(lit ''role'', JStr (lit ''user'')), (lit ''content'', JStr (lit ''hi''))],
        JDict [(lit ''role'', JStr (lit ''user'')), (lit ''content'', JStr (lit ''Dune?''))],
        JNull]],
      [Log DEBUG (lit ''Using API key from %s'') [Text (lit ''GEMINI_API_KEY'')],
       Log INFO (lit ''Created Movies Buddy agent with model %s'') [Text (lit ''gemini-2.5-pro'')],
       Log WARNING (lit ''Movies Buddy agent run timed out after %s seconds'') [Value (JFloat t)]])"
    using timeout_returns_prior_history [where rt = rt and timeout_s = "Some t"
        and bound = "if float_bool rt t then Some t else None"
        and m = "[]" and user_input = "lit ''Dune?''"
        and conversation_history = "Some 0"
        and h = "[[JDict [(lit ''role'', JStr (lit ''user'')), (lit ''content'', JStr (lit ''hi''))]]]"
        and prior = "[JDict [(lit ''role'', JStr (lit ''user'')), (lit ''content'', JStr (lit ''hi''))]]"
        and w = "\<lparr>environ = map_of [(lit ''GEMINI_API_KEY'', lit ''k'')],
         GEMINI_BASE_URL = lit ''https://generativelanguage.googleapis.com/v1beta/openai/'',
         script_is_file = True,
         runner = (\<lambda>agent bound msgs. (Run_raised Timeout_error [], msgs @ [JNull]))\<rparr>"
        and evs = "[Log DEBUG (lit ''Using API key from %s'') [Text (lit ''GEMINI_API_KEY'')],
       Log INFO (lit ''Created Movies Buddy agent with model %s'') [Text (lit ''gemini-2.5-pro'')]]"
        and agent = "\<lparr>key = lit ''k'',
          base_url = lit ''https://generativelanguage.googleapis.com/v1beta/openai/'',
          model_id = lit ''gemini-2.5-pro'',
          tracing_disabled = (str_lower rt (lit ''true'') \<in> set [lit ''1'', lit ''true'', lit ''yes''])\<rparr>"]
    by (simp add: run_movies_buddy_agent_def create_movies_buddy_agent_def resolve_api_key_def
          API_KEY_ENV_VARS_def candidate_def getenv_def history_or_empty_def Let_def lit_def)
qed

end
